theory Spec2Isabelle
  imports Complex_Main "HOL-Library.Signed_Division"
begin

section \<open>Calibration store (src/app/page.tsx)\<close>

text \<open>
  JavaScript numbers are IEEE doubles; throughout this development they are idealised as
  real numbers, so every arithmetic identity below is exact and says nothing about
  rounding.

  The calibration state of the page is an object from joint names to entries of type
  \<^verbatim>\<open>{ positionOffset?: [number, number, number] }\<close>.  At run time the
  tuple is an ordinary array, which the viewer reads with \<^verbatim>\<open>off[k] ?? 0\<close>,
  so the offset is kept as a list.  The map holds the own properties of the object.  A
  name that the object only inherits (\<^verbatim>\<open>constructor\<close>,
  \<^verbatim>\<open>toString\<close>, ...) reads as a value without
  \<^verbatim>\<open>positionOffset\<close>, which acts like no entry; the prototype itself is
  not part of the map (it can only be read back under the name
  \<^verbatim>\<open>__proto__\<close>, which is no sensor of the skeleton).
\<close>

record calibration_entry =
  positionOffset :: "real list option"

type_synonym calibration = "string \<rightharpoonup> calibration_entry"

text \<open>
  The handler passed to the viewer as \<^verbatim>\<open>onCalibrationChange\<close>:
  \<^verbatim>\<open>setCalibration(prev => ({ ...prev, [joint]: { ...(prev[joint]||{}), positionOffset: offset } }))\<close>
\<close>

definition onCalibrationChange :: "calibration \<Rightarrow> string \<Rightarrow> real list \<Rightarrow> calibration" where
  "onCalibrationChange prev joint offset =
     prev(joint \<mapsto>
       (case prev joint of None \<Rightarrow> \<lparr>positionOffset = None\<rparr> | Some e \<Rightarrow> e)
         \<lparr>positionOffset := Some offset\<rparr>)"

section \<open>Skeleton constants (lib/skeleton-constants)\<close>

definition SENSOR_NAMES :: "string list" where
  "SENSOR_NAMES =
    [''head'', ''sternum'', ''upper_arm_left'', ''upper_arm_right'', ''lumbar'',
     ''wrist_left'', ''wrist_right'', ''hand_left'', ''hand_right'',
     ''upper_leg_left'', ''upper_leg_right'', ''lower_leg_left'', ''lower_leg_right'',
     ''foot_left'', ''foot_right'']"

definition EDGES :: "(string \<times> string) list" where
  "EDGES =
    [(''head'', ''sternum''),
     (''sternum'', ''lumbar''),
     (''sternum'', ''upper_arm_left''),
     (''sternum'', ''upper_arm_right''),
     (''upper_arm_left'', ''wrist_left''),
     (''wrist_left'', ''hand_left''),
     (''upper_arm_right'', ''wrist_right''),
     (''wrist_right'', ''hand_right''),
     (''lumbar'', ''upper_leg_left''),
     (''lumbar'', ''upper_leg_right''),
     (''upper_leg_left'', ''lower_leg_left''),
     (''lower_leg_left'', ''foot_left''),
     (''upper_leg_right'', ''lower_leg_right''),
     (''lower_leg_right'', ''foot_right'')]"

text \<open>
  The dataset payload of the viewer.  \<^verbatim>\<open>numFrames\<close> is a JavaScript number
  that the clock uses as a divisor, so it is an integer that may be zero or negative;
  \<^verbatim>\<open>numSensors\<close> is only used as a loop bound and an array length.  The
  optional \<^verbatim>\<open>rawSensorData\<close> channels are not part of the record: the glyph
  lengths derived from them are modelled on the samples directly (see below).
\<close>

record DatasetPayload =
  frameRate :: real
  sensorNames :: "string list"
  edges :: "(string \<times> string) list"
  numFrames :: int
  numSensors :: nat
  frames :: "real list list list"

record validation =
  isValid :: bool
  missingSensors :: "string list"
  missingEdges :: "(string \<times> string) list"

definition validateSkeletonStructure :: "DatasetPayload \<Rightarrow> validation" where
  "validateSkeletonStructure d =
     (let missingS = filter (\<lambda>name. name \<notin> set (sensorNames d)) SENSOR_NAMES;
          missingE = filter (\<lambda>(a, b).
              \<not> list_ex (\<lambda>(ea, eb). (ea = a \<and> eb = b) \<or> (ea = b \<and> eb = a)) (edges d)) EDGES
      in \<lparr>isValid = (length missingS = 0 \<and> length missingE = 0),
          missingSensors = missingS,
          missingEdges = missingE\<rparr>)"

section \<open>Edge index pairs (src/components/skeleton-viewer.tsx)\<close>

text \<open>
  \<^verbatim>\<open>new Map(data.sensorNames.map((n, i) => [n, i]))\<close>: the entries are set one
  after the other, so a name that occurs twice keeps its last index.
\<close>

definition nameToIdx :: "string list \<Rightarrow> string \<rightharpoonup> nat" where
  "nameToIdx names = fold (\<lambda>(n, i) m. m(n \<mapsto> i)) (zip names [0..<length names]) Map.empty"

text \<open>
  The memoised \<^verbatim>\<open>edgeIndexPairs\<close>: the canonical edges are looked up by name
  and an edge with a missing endpoint is dropped (with a console warning).  A null
  \<^verbatim>\<open>data\<close> prop gives the empty list.
\<close>

definition edgeIndexPairs :: "DatasetPayload option \<Rightarrow> (nat \<times> nat) list" where
  "edgeIndexPairs data =
     (case data of
        None \<Rightarrow> []
      | Some d \<Rightarrow>
          List.map_filter
            (\<lambda>(a, b). case nameToIdx (sensorNames d) a of
                        None \<Rightarrow> None
                      | Some idxA \<Rightarrow>
                          (case nameToIdx (sensorNames d) b of
                             None \<Rightarrow> None
                           | Some idxB \<Rightarrow> Some (idxA, idxB)))
            EDGES)"

section \<open>Calibration import (file input handler of src/app/page.tsx)\<close>

text \<open>
  The value that \<^verbatim>\<open>JSON.parse\<close> returns.  A JSON number is a double: finite,
  or an infinity for a literal out of range such as \<^verbatim>\<open>1e999\<close>.  An
  object is the list of its members; a parsed object has no two members with the same
  key, and a member is read with \<^const>\<open>map_of\<close>.
\<close>

datatype json_number = Finite real | PosInfinity | NegInfinity

datatype json =
    JNull
  | JBool bool
  | JNumber json_number
  | JString string
  | JArray "json list"
  | JObject "(string \<times> json) list"

text \<open>\<^verbatim>\<open>!v\<close> is false: the value is truthy.\<close>

fun truthy :: "json \<Rightarrow> bool" where
  "truthy JNull = False"
| "truthy (JBool b) = b"
| "truthy (JNumber (Finite r)) = (r \<noteq> 0)"
| "truthy (JNumber PosInfinity) = True"
| "truthy (JNumber NegInfinity) = True"
| "truthy (JString s) = (s \<noteq> [])"
| "truthy (JArray vs) = True"
| "truthy (JObject kvs) = True"

text \<open>\<^verbatim>\<open>typeof v === 'object'\<close>, which holds of null, arrays and objects.\<close>

fun typeofObject :: "json \<Rightarrow> bool" where
  "typeofObject JNull = True"
| "typeofObject (JArray vs) = True"
| "typeofObject (JObject kvs) = True"
| "typeofObject (JBool b) = False"
| "typeofObject (JNumber n) = False"
| "typeofObject (JString s) = False"

text \<open>The decimal numeral of an array index, as \<^verbatim>\<open>Object.keys\<close> lists it.\<close>

function decimal :: "nat \<Rightarrow> string" where
  "decimal n =
     (if n < 10 then [char_of (48 + n)]
      else decimal (n div 10) @ [char_of (48 + n mod 10)])"
  by pat_completeness auto
termination
  by (relation "measure (\<lambda>n. n)") auto

text \<open>
  The own enumerable properties of a value that passed the object test: the members of an
  object, the elements of an array under their indices.
\<close>

fun ownEntries :: "json \<Rightarrow> (string \<times> json) list" where
  "ownEntries (JObject kvs) = kvs"
| "ownEntries (JArray vs) = zip (map decimal [0..<length vs]) vs"
| "ownEntries JNull = []"
| "ownEntries (JBool b) = []"
| "ownEntries (JNumber n) = []"
| "ownEntries (JString s) = []"

text \<open>
  \<^verbatim>\<open>entry.positionOffset\<close> for an entry that passed the object test: a member of
  an object, undefined (\<^const>\<open>None\<close>) on an array.
\<close>

fun getPositionOffset :: "json \<Rightarrow> json option" where
  "getPositionOffset (JObject kvs) = map_of kvs ''positionOffset''"
| "getPositionOffset (JArray vs) = None"
| "getPositionOffset JNull = None"
| "getPositionOffset (JBool b) = None"
| "getPositionOffset (JNumber n) = None"
| "getPositionOffset (JString s) = None"

text \<open>\<^verbatim>\<open>typeof v === 'number' && Number.isFinite(v)\<close>, with the number it holds of.\<close>

fun finiteNumber :: "json \<Rightarrow> real option" where
  "finiteNumber (JNumber (Finite r)) = Some r"
| "finiteNumber (JNumber PosInfinity) = None"
| "finiteNumber (JNumber NegInfinity) = None"
| "finiteNumber JNull = None"
| "finiteNumber (JBool b) = None"
| "finiteNumber (JString s) = None"
| "finiteNumber (JArray vs) = None"
| "finiteNumber (JObject kvs) = None"

text \<open>
  \<^verbatim>\<open>Array.isArray(off) && off.length === 3 && off.every(...)\<close>, giving the
  copied triple \<^verbatim>\<open>[off[0], off[1], off[2]]\<close> when the test passes
  (\<^const>\<open>those\<close> succeeds exactly when every element is a finite number).
\<close>

fun validOffset :: "json option \<Rightarrow> real list option" where
  "validOffset (Some (JArray vs)) =
     (if length vs = 3 then those (map finiteNumber vs) else None)"
| "validOffset (Some JNull) = None"
| "validOffset (Some (JBool b)) = None"
| "validOffset (Some (JNumber n)) = None"
| "validOffset (Some (JString s)) = None"
| "validOffset (Some (JObject kvs)) = None"
| "validOffset None = None"

text \<open>
  One iteration of the loop over \<^verbatim>\<open>Object.keys(raw)\<close>.
  \<^verbatim>\<open>JSON.parse\<close> makes a member named \<^verbatim>\<open>__proto__\<close> an
  own property of \<^verbatim>\<open>raw\<close>, so the loop meets it like any other key; but
  \<^verbatim>\<open>next[key] = ...\<close> on the plain object \<^verbatim>\<open>next\<close> then
  runs the prototype setter: it replaces the prototype of \<^verbatim>\<open>next\<close> and
  creates no property.
\<close>

definition importEntry :: "(string \<times> json) list \<Rightarrow> string \<Rightarrow> calibration \<Rightarrow> calibration" where
  "importEntry props key next =
     (case map_of props key of
        None \<Rightarrow> next
      | Some entry \<Rightarrow>
          if \<not> truthy entry \<or> \<not> typeofObject entry then next
          else (case validOffset (getPositionOffset entry) of
                  None \<Rightarrow> next
                | Some off \<Rightarrow>
                    if key = ''__proto__'' then next
                    else next(key \<mapsto> \<lparr>positionOffset = Some off\<rparr>)))"

datatype import_error = InvalidCalibrationFormat

text \<open>The body of the \<^verbatim>\<open>try\<close> block after parsing.\<close>

definition importCalibration :: "json \<Rightarrow> import_error + calibration" where
  "importCalibration raw =
     (if \<not> truthy raw \<or> \<not> typeofObject raw then Inl InvalidCalibrationFormat
      else Inr (fold (importEntry (ownEntries raw)) (map fst (ownEntries raw)) Map.empty))"

text \<open>
  What the handler finds: no file selected, a file whose text \<^verbatim>\<open>JSON.parse\<close>
  rejects (a \<^verbatim>\<open>SyntaxError\<close>), or a parsed value.
\<close>

datatype file_input = NoFile | Unparsable | Parsed json

text \<open>
  The handler as a whole, from the calibration state before to the one after.  Every
  exception of the body is caught and logged, and then \<^verbatim>\<open>setCalibration\<close>
  is not reached.
\<close>

definition importHandler :: "file_input \<Rightarrow> calibration \<Rightarrow> calibration" where
  "importHandler input calibration =
     (case input of
        NoFile \<Rightarrow> calibration
      | Unparsable \<Rightarrow> calibration
      | Parsed raw \<Rightarrow>
          (case importCalibration raw of
             Inl err \<Rightarrow> calibration
           | Inr next \<Rightarrow> next))"

section \<open>Playback clock (src/components/skeleton-viewer.tsx)\<close>

text \<open>
  \<^verbatim>\<open>currentFrameRef.current\<close> is a JavaScript number.  The clock only ever
  stores integers in it, or \<^verbatim>\<open>NaN\<close> when a remainder by zero is taken.
\<close>

datatype frame_number = Frame int | NaN

text \<open>
  \<^verbatim>\<open>(currentFrameRef.current + 1) % data.numFrames\<close>.  The remainder of
  JavaScript has the sign of the dividend (\<open>smod\<close>), it is \<^verbatim>\<open>NaN\<close> for
  a zero divisor, and \<^verbatim>\<open>NaN\<close> propagates.
\<close>

fun advanceFrame :: "frame_number \<Rightarrow> int \<Rightarrow> frame_number" where
  "advanceFrame NaN n = NaN"
| "advanceFrame (Frame c) n = (if n = 0 then NaN else Frame ((c + 1) smod n))"

text \<open>
  The props the clock reads besides the dataset, and the mutable cells it shares with the
  rest of the viewer: the refs \<^verbatim>\<open>currentFrameRef\<close>,
  \<^verbatim>\<open>isSeekingRef\<close>, \<^verbatim>\<open>isDraggingRef\<close> and the variables
  \<^verbatim>\<open>lastTime\<close>, \<^verbatim>\<open>accumulator\<close>, \<^verbatim>\<open>frameSkip\<close> of the
  effect's closure.  Two fields record what the clock does to the outside:
  \<open>rafRequests\<close> counts the calls of \<^verbatim>\<open>requestAnimationFrame(tick)\<close>, and
  \<open>rendered\<close> lists, oldest first, the frame numbers handed to
  \<^verbatim>\<open>updateSkeleton\<close> (and \<^verbatim>\<open>onFrameChange\<close>).
  \<^verbatim>\<open>updateSkeleton\<close> writes none of the clock's cells; it is modelled on its
  own further down, and the clock is modelled for calls of it that return normally, as they
  do whenever each frame of the dataset holds a point for every sensor.
\<close>

record clock_props =
  isPlaying :: bool
  targetFps :: real
  isSafari :: bool

record clock =
  currentFrame :: frame_number
  isSeeking :: bool
  isDragging :: bool
  lastTime :: real
  accumulator :: real
  frameSkip :: nat
  rafRequests :: nat
  rendered :: "frame_number list"

text \<open>\<^verbatim>\<open>targetFps > 0 ? targetFps : (data.frameRate || 60)\<close>\<close>

definition fps :: "clock_props \<Rightarrow> DatasetPayload \<Rightarrow> real" where
  "fps P d = (if targetFps P > 0 then targetFps P
              else if frameRate d \<noteq> 0 then frameRate d else 60)"

definition intervalMs :: "clock_props \<Rightarrow> DatasetPayload \<Rightarrow> real" where
  "intervalMs P d = 1000 / fps P d"

definition maxFrameSkip :: "clock_props \<Rightarrow> nat" where
  "maxFrameSkip P = (if isSafari P then 3 else 5)"

text \<open>
  The \<^verbatim>\<open>while\<close> loop of \<^verbatim>\<open>tick\<close>, with
  \<^verbatim>\<open>framesToUpdate\<close> as the last argument and in the result.
\<close>

function tickLoop :: "real \<Rightarrow> nat \<Rightarrow> int \<Rightarrow> clock \<Rightarrow> nat \<Rightarrow> clock \<times> nat" where
  "tickLoop interval maxSkip n s framesToUpdate =
     (if accumulator s \<ge> interval \<and> framesToUpdate < maxSkip
      then tickLoop interval maxSkip n
             (s\<lparr>accumulator := accumulator s - interval,
                currentFrame := advanceFrame (currentFrame s) n,
                rendered := rendered s @ [advanceFrame (currentFrame s) n]\<rparr>)
             (framesToUpdate + 1)
      else (s, framesToUpdate))"
  by pat_completeness auto
termination
  by (relation "measure (\<lambda>(interval, maxSkip, n, s, framesToUpdate). maxSkip - framesToUpdate)") auto

declare tickLoop.simps [simp del]

text \<open>
  The frame callback \<^verbatim>\<open>tick(time)\<close> for a non-null dataset (the effect
  installs no callback when \<^verbatim>\<open>data\<close> is null).
\<close>

definition tick :: "clock_props \<Rightarrow> DatasetPayload \<Rightarrow> real \<Rightarrow> clock \<Rightarrow> clock" where
  "tick P d time s0 =
     (let s = s0\<lparr>rafRequests := rafRequests s0 + 1\<rparr> in
      if \<not> isPlaying P \<or> isSeeking s \<or> isDragging s then s\<lparr>lastTime := time\<rparr>
      else
        let delta = time - lastTime s;
            s1 = s\<lparr>lastTime := time, accumulator := accumulator s + delta\<rparr>;
            (s2, framesToUpdate) = tickLoop (intervalMs P d) (maxFrameSkip P) (numFrames d) s1 0
        in if framesToUpdate = 0 \<and> accumulator s2 > intervalMs P d * 2
           then s2\<lparr>frameSkip := frameSkip s2 + 1\<rparr>
           else s2\<lparr>frameSkip := 0\<rparr>)"

text \<open>
  The body of the animation effect, run when the effect is (re)installed at time
  \<open>now\<close>: fresh closure variables and the first
  \<^verbatim>\<open>requestAnimationFrame\<close>.
\<close>

definition startClock :: "real \<Rightarrow> clock \<Rightarrow> clock" where
  "startClock now s =
     s\<lparr>lastTime := now, accumulator := 0, frameSkip := 0, rafRequests := rafRequests s + 1\<rparr>"

text \<open>
  The seek effect.  The target is
  \<^verbatim>\<open>Math.max(0, Math.min(seekFrame, data?.numFrames ? data.numFrames - 1 : 0))\<close>;
  the slider that produces \<^verbatim>\<open>seekFrame\<close> steps by one, so it is an integer.
\<close>

definition seekTarget :: "DatasetPayload option \<Rightarrow> int \<Rightarrow> int" where
  "seekTarget data k =
     max 0 (min k (case data of
                     None \<Rightarrow> 0
                   | Some d \<Rightarrow> if numFrames d \<noteq> 0 then numFrames d - 1 else 0))"

definition seekEffect :: "DatasetPayload option \<Rightarrow> int option \<Rightarrow> clock \<Rightarrow> clock" where
  "seekEffect data seekFrame s =
     (case seekFrame of
        Some k \<Rightarrow>
          s\<lparr>isSeeking := True,
            currentFrame := Frame (seekTarget data k),
            rendered := rendered s @ [Frame (seekTarget data k)]\<rparr>
      | None \<Rightarrow> s\<lparr>isSeeking := False\<rparr>)"

text \<open>The listener of the manipulator's \<^verbatim>\<open>dragging-changed\<close> event.\<close>

definition draggingChanged :: "bool \<Rightarrow> clock \<Rightarrow> clock" where
  "draggingChanged v s = s\<lparr>isDragging := v\<rparr>"

text \<open>
  The clock's cells when a dataset has just been loaded at time \<open>now\<close>: the creation
  effect has reset the frame to 0 and drawn it, nothing is being sought or dragged.
\<close>

definition loadedClock :: "real \<Rightarrow> clock" where
  "loadedClock now =
     \<lparr>currentFrame = Frame 0, isSeeking = False, isDragging = False,
      lastTime = now, accumulator = 0, frameSkip = 0, rafRequests = 1,
      rendered = [Frame 0]\<rparr>"

text \<open>
  What can happen to the clock while one dataset is shown: a frame callback, a change of
  the \<^verbatim>\<open>seekFrame\<close> prop, the start or end of a drag, and a re-run of the
  animation effect (on a change of \<^verbatim>\<open>isPlaying\<close> or
  \<^verbatim>\<open>targetFps\<close>).  Each event comes with the props current at that moment.
\<close>

datatype clock_event =
    Tick real
  | SeekFrame "int option"
  | DraggingChanged bool
  | Restart real

fun clockStep :: "DatasetPayload \<Rightarrow> clock_props \<times> clock_event \<Rightarrow> clock \<Rightarrow> clock" where
  "clockStep d (P, Tick time) s = tick P d time s"
| "clockStep d (P, SeekFrame k) s = seekEffect (Some d) k s"
| "clockStep d (P, DraggingChanged v) s = draggingChanged v s"
| "clockStep d (P, Restart now) s = startClock now s"

definition runClock :: "DatasetPayload \<Rightarrow> (clock_props \<times> clock_event) list \<Rightarrow> clock \<Rightarrow> clock" where
  "runClock d evs s = fold (clockStep d) evs s"

text \<open>The range condition on the current frame, in the words of the specification.\<close>

definition frameInRange :: "DatasetPayload \<Rightarrow> clock \<Rightarrow> bool" where
  "frameInRange d s =
     (case currentFrame s of
        Frame c \<Rightarrow> 0 \<le> c \<and> c < numFrames d
      | NaN \<Rightarrow> False)"

section \<open>Pose resolution and scene state (src/components/skeleton-viewer.tsx)\<close>

datatype vec3 = Vector3 (vx: real) (vy: real) (vz: real)

definition SCALE_FACTOR :: real where
  "SCALE_FACTOR = 0.01"

text \<open>\<^verbatim>\<open>p[k] ?? 0\<close> on an array of numbers.\<close>

definition coordOrZero :: "real list \<Rightarrow> nat \<Rightarrow> real" where
  "coordOrZero p k = (if k < length p then p ! k else 0)"

text \<open>
  \<^verbatim>\<open>data.frames[frameIndex]\<close>: undefined (\<^const>\<open>None\<close>) for
  \<^verbatim>\<open>NaN\<close> and for an index outside the array.
\<close>

definition frameAt :: "DatasetPayload \<Rightarrow> frame_number \<Rightarrow> real list list option" where
  "frameAt d frameIndex =
     (case frameIndex of
        NaN \<Rightarrow> None
      | Frame i \<Rightarrow>
          if 0 \<le> i \<and> i < int (length (frames d)) then Some (frames d ! nat i) else None)"

definition getBasePositionForJoint :: "DatasetPayload option \<Rightarrow> nat \<Rightarrow> frame_number \<Rightarrow> vec3" where
  "getBasePositionForJoint data jointIndex frameIndex =
     (case data of
        None \<Rightarrow> Vector3 0 0 0
      | Some d \<Rightarrow>
          (case frameAt d frameIndex of
             None \<Rightarrow> Vector3 0 0 0
           | Some f \<Rightarrow>
               if jointIndex < length f
               then Vector3 (coordOrZero (f ! jointIndex) 0 * SCALE_FACTOR)
                            (coordOrZero (f ! jointIndex) 1 * SCALE_FACTOR)
                            (coordOrZero (f ! jointIndex) 2 * SCALE_FACTOR)
               else Vector3 0 0 0))"

text \<open>\<^verbatim>\<open>Array.prototype.indexOf\<close>, with \<^const>\<open>None\<close> for -1.\<close>

fun indexOf :: "'a list \<Rightarrow> 'a \<Rightarrow> nat option" where
  "indexOf [] a = None"
| "indexOf (x # xs) a = (if x = a then Some 0 else map_option Suc (indexOf xs a))"

text \<open>
  The mutable state that \<^verbatim>\<open>updateSkeleton\<close> and the manipulator's listeners
  work on.  \<open>sceneRef\<close> is \<^const>\<open>None\<close> while
  \<^verbatim>\<open>sceneRef.current\<close> is null and otherwise holds the scene's
  \<^verbatim>\<open>__hasAutoCentered\<close> property (an absent property reads as false).
  \<open>cameraRef\<close> holds the camera's position and field of view, \<open>controlsRef\<close> the
  orbit target; \<open>jointsRef\<close> the positions of the joint markers, \<open>bonesRef\<close> the two
  end points of every bone line, \<open>jointPositionsRef\<close> the resolved positions.
  \<open>isDraggingRef\<close> is the cell the clock knows as \<open>isDragging\<close>.
\<close>

record perspective_camera =
  position :: vec3
  fov :: real

record scene =
  sceneRef :: "bool option"
  cameraRef :: "perspective_camera option"
  controlsRef :: "vec3 option"
  jointsRef :: "vec3 list"
  bonesRef :: "(vec3 \<times> vec3) list"
  jointPositionsRef :: "vec3 list"
  calibrationRef :: calibration
  selectedJointRef :: "string option"
  isDraggingRef :: bool

text \<open>
  An exception leaves the state as it is at that point, so the functions below return the
  state together with the exception, if any.  A point with fewer than three coordinates
  would give \<^verbatim>\<open>NaN\<close> coordinates, which the reals do not have: there the model
  stops with \<open>NaNCoordinate\<close>.
\<close>

datatype js_error = TypeError | NaNCoordinate

text \<open>
  \<^verbatim>\<open>selectedJointRef.current ? data.sensorNames.indexOf(selectedJointRef.current) : -1\<close>
  (the empty string is falsy).
\<close>

definition selectedIdx :: "DatasetPayload \<Rightarrow> scene \<Rightarrow> nat option" where
  "selectedIdx d s =
     (case selectedJointRef s of
        None \<Rightarrow> None
      | Some name \<Rightarrow> if name = [] then None else indexOf (sensorNames d) name)"

text \<open>
  The calibration offset added to joint \<open>i\<close>, in render units: zero unless the joint has
  a non-empty name with an entry that has a \<^verbatim>\<open>positionOffset\<close>.
\<close>

definition calibrationShift :: "DatasetPayload \<Rightarrow> calibration \<Rightarrow> nat \<Rightarrow> vec3" where
  "calibrationShift d cal i =
     (if i < length (sensorNames d) \<and> sensorNames d ! i \<noteq> []
      then (case cal (sensorNames d ! i) of
              None \<Rightarrow> Vector3 0 0 0
            | Some cfg \<Rightarrow>
                (case positionOffset cfg of
                   None \<Rightarrow> Vector3 0 0 0
                 | Some off \<Rightarrow>
                     Vector3 (coordOrZero off 0 * SCALE_FACTOR)
                             (coordOrZero off 1 * SCALE_FACTOR)
                             (coordOrZero off 2 * SCALE_FACTOR)))
      else Vector3 0 0 0)"

text \<open>
  The position resolved for joint \<open>i\<close> from its point in the frame: the point scaled,
  plus the calibration shift.
\<close>

definition resolvedPosition :: "DatasetPayload \<Rightarrow> calibration \<Rightarrow> real list list \<Rightarrow> nat \<Rightarrow> vec3" where
  "resolvedPosition d cal frame i =
     Vector3 ((frame ! i) ! 0 * SCALE_FACTOR + vx (calibrationShift d cal i))
             ((frame ! i) ! 1 * SCALE_FACTOR + vy (calibrationShift d cal i))
             ((frame ! i) ! 2 * SCALE_FACTOR + vz (calibrationShift d cal i))"

text \<open>
  The loop over the joints, on the list of indices still to do.  In one iteration
  \<^verbatim>\<open>pos.set(...)\<close> raises when the frame has no point \<open>i\<close> or there is no
  vector \<open>i\<close>; the vector is then overwritten in place, and the marker is written last
  (raising when there is no marker \<open>i\<close>) unless it is the selected joint under drag.
\<close>

fun updateJoints ::
  "DatasetPayload \<Rightarrow> real list list \<Rightarrow> nat option \<Rightarrow> nat list \<Rightarrow> scene \<Rightarrow> scene \<times> js_error option"
where
  "updateJoints d frame sel [] s = (s, None)"
| "updateJoints d frame sel (i # rest) s =
     (if i \<ge> length (jointPositionsRef s) \<or> i \<ge> length frame then (s, Some TypeError)
      else if length (frame ! i) < 3 then (s, Some NaNCoordinate)
      else
        let pos = resolvedPosition d (calibrationRef s) frame i;
            s1 = s\<lparr>jointPositionsRef := (jointPositionsRef s)[i := pos]\<rparr>
        in if sel \<noteq> Some i \<or> \<not> isDraggingRef s
           then (if i \<ge> length (jointsRef s1) then (s1, Some TypeError)
                 else updateJoints d frame sel rest (s1\<lparr>jointsRef := (jointsRef s1)[i := pos]\<rparr>))
           else updateJoints d frame sel rest s1)"

text \<open>
  The loop over the bones; \<open>i\<close> is the index of the first pair of the list.  The first
  end point is written before the second is read.
\<close>

fun updateBones :: "(nat \<times> nat) list \<Rightarrow> nat \<Rightarrow> scene \<Rightarrow> scene \<times> js_error option" where
  "updateBones [] i s = (s, None)"
| "updateBones ((a, b) # rest) i s =
     (if i \<ge> length (bonesRef s) \<or> a \<ge> length (jointPositionsRef s) then (s, Some TypeError)
      else
        let s1 = s\<lparr>bonesRef := (bonesRef s)[i := (jointPositionsRef s ! a, snd (bonesRef s ! i))]\<rparr>
        in if b \<ge> length (jointPositionsRef s) then (s1, Some TypeError)
           else updateBones rest (i + 1)
                  (s\<lparr>bonesRef := (bonesRef s)[i := (jointPositionsRef s ! a, jointPositionsRef s ! b)]\<rparr>))"

text \<open>
  \<^verbatim>\<open>new THREE.Box3().setFromPoints(points)\<close> with \<^verbatim>\<open>getCenter\<close> and
  \<^verbatim>\<open>getSize\<close>: the corners are the coordinate-wise minimum and maximum of the
  points; the box of no points is empty, and centre and size of an empty box are zero.
\<close>

definition boxMin :: "vec3 \<Rightarrow> vec3 list \<Rightarrow> vec3" where
  "boxMin p ps = Vector3 (fold min (map vx ps) (vx p)) (fold min (map vy ps) (vy p))
                         (fold min (map vz ps) (vz p))"

definition boxMax :: "vec3 \<Rightarrow> vec3 list \<Rightarrow> vec3" where
  "boxMax p ps = Vector3 (fold max (map vx ps) (vx p)) (fold max (map vy ps) (vy p))
                         (fold max (map vz ps) (vz p))"

definition boxCenter :: "vec3 list \<Rightarrow> vec3" where
  "boxCenter points =
     (case points of
        [] \<Rightarrow> Vector3 0 0 0
      | p # ps \<Rightarrow>
          Vector3 ((vx (boxMin p ps) + vx (boxMax p ps)) * 0.5)
                  ((vy (boxMin p ps) + vy (boxMax p ps)) * 0.5)
                  ((vz (boxMin p ps) + vz (boxMax p ps)) * 0.5))"

definition boxSize :: "vec3 list \<Rightarrow> vec3" where
  "boxSize points =
     (case points of
        [] \<Rightarrow> Vector3 0 0 0
      | p # ps \<Rightarrow>
          Vector3 (vx (boxMax p ps) - vx (boxMin p ps))
                  (vy (boxMax p ps) - vy (boxMin p ps))
                  (vz (boxMax p ps) - vz (boxMin p ps)))"

text \<open>
  The one-time framing: the camera position and the orbit target computed from the
  resolved positions.  (\<^verbatim>\<open>controls.update()\<close>, which follows in the source,
  belongs to the orbit controller and is not modelled.)
\<close>

definition framedPosition :: "vec3 list \<Rightarrow> real \<Rightarrow> vec3" where
  "framedPosition points fieldOfView =
     (let center = boxCenter points;
          size = boxSize points;
          maxDim = max (vx size) (max (vy size) (vz size));
          fovRad = fieldOfView * (pi / 180);
          distance = (maxDim * SCALE_FACTOR) / (2 * tan (fovRad / 2)) * 1.8
      in Vector3 (vx center + distance * 0.8) (vy center + distance * 0.6)
                 (vz center + distance * 0.8))"

definition autoCenter :: "perspective_camera \<Rightarrow> scene \<Rightarrow> scene" where
  "autoCenter cam s =
     s\<lparr>cameraRef := Some (cam\<lparr>position := framedPosition (jointPositionsRef s) (fov cam)\<rparr>),
       controlsRef := Some (boxCenter (jointPositionsRef s)),
       sceneRef := Some True\<rparr>"

text \<open>
  \<^verbatim>\<open>updateSkeleton(frameIndex)\<close>, up to and including the camera framing.  The
  update of the raw-data glyphs that ends the function writes none of the cells of
  \<^typ>\<open>scene\<close>; the glyph lengths are modelled below.
\<close>

definition updateSkeleton ::
  "DatasetPayload option \<Rightarrow> frame_number \<Rightarrow> scene \<Rightarrow> scene \<times> js_error option"
where
  "updateSkeleton data frameIndex s =
     (case data of
        None \<Rightarrow> (s, None)
      | Some d \<Rightarrow>
     (case cameraRef s of
        None \<Rightarrow> (s, None)
      | Some cam \<Rightarrow>
     if jointsRef s = [] \<or> bonesRef s = [] then (s, None)
     else
     (case frameAt d frameIndex of
        None \<Rightarrow> (s, None)
      | Some frame \<Rightarrow>
     (case updateJoints d frame (selectedIdx d s) [0..<numSensors d] s of
        (s1, Some err) \<Rightarrow> (s1, Some err)
      | (s1, None) \<Rightarrow>
     (case updateBones (edgeIndexPairs data) 0 s1 of
        (s2, Some err) \<Rightarrow> (s2, Some err)
      | (s2, None) \<Rightarrow>
     if frameIndex = Frame 0 \<and> controlsRef s2 \<noteq> None
     then (case sceneRef s2 of
             None \<Rightarrow> (s2, Some TypeError)
           | Some hasAutoCentered \<Rightarrow>
               if hasAutoCentered then (s2, None) else (autoCenter cam s2, None))
     else (s2, None))))))"

text \<open>
  The effect that builds the skeleton when \<^verbatim>\<open>data\<close> changes: fresh markers
  and vectors at the origin, one zeroed line per edge index pair, the framing flag reset,
  and the initial pose \<^verbatim>\<open>updateSkeleton(0)\<close>.  (It also resets
  \<^verbatim>\<open>currentFrameRef\<close>, see \<^const>\<open>loadedClock\<close>.)
\<close>

definition createSkeleton :: "DatasetPayload option \<Rightarrow> scene \<Rightarrow> scene \<times> js_error option" where
  "createSkeleton data s =
     (case sceneRef s of
        None \<Rightarrow> (s, None)
      | Some flag \<Rightarrow>
          (case data of
             None \<Rightarrow> (s, None)
           | Some d \<Rightarrow>
               updateSkeleton data (Frame 0)
                 (s\<lparr>jointsRef := replicate (numSensors d) (Vector3 0 0 0),
                    jointPositionsRef := replicate (numSensors d) (Vector3 0 0 0),
                    bonesRef := replicate (length (edgeIndexPairs data))
                                  (Vector3 0 0 0, Vector3 0 0 0),
                    sceneRef := Some False\<rparr>)))"


text \<open>
  The listener \<^verbatim>\<open>handleTransformChange\<close> of the manipulator, for the frame
  in \<^verbatim>\<open>currentFrameRef\<close>: the arguments of its call of
  \<^verbatim>\<open>onCalibrationChange\<close>, or \<^const>\<open>None\<close> when it returns early.  (The
  page always passes \<^verbatim>\<open>onCalibrationChange\<close>.)

  The listener is created and registered by the effect that initialises the scene, whose
  dependency list is empty: it runs once, when the viewer is mounted.  So the
  \<^verbatim>\<open>data\<close> the listener reads, directly and through
  \<^verbatim>\<open>getBasePositionForJoint\<close>, is the \<^verbatim>\<open>data\<close> prop of the
  first render, \<open>mountData\<close>, for as long as the viewer lives, whatever dataset is
  shown; the page replaces the dataset without mounting the viewer anew.  The cells it
  reads through refs (selected joint, markers, current frame) are the current ones.
\<close>

definition handleTransformChange ::
  "DatasetPayload option \<Rightarrow> frame_number \<Rightarrow> scene \<Rightarrow> (string \<times> real list) option"
where
  "handleTransformChange mountData frameIndex s =
     (case mountData of
        None \<Rightarrow> None
      | Some d \<Rightarrow>
     (case selectedJointRef s of
        None \<Rightarrow> None
      | Some selectedJnt \<Rightarrow>
     if selectedJnt = [] then None
     else
     (case indexOf (sensorNames d) selectedJnt of
        None \<Rightarrow> None
      | Some jointIdx \<Rightarrow>
     if jointIdx \<ge> length (jointsRef s) then None
     else
       let obj = jointsRef s ! jointIdx;
           base = getBasePositionForJoint mountData jointIdx frameIndex
       in Some (selectedJnt,
                [(vx obj - vx base) / SCALE_FACTOR,
                 (vy obj - vy base) / SCALE_FACTOR,
                 (vz obj - vz base) / SCALE_FACTOR]))))"

section \<open>Vector glyphs (src/components/skeleton-viewer.tsx)\<close>

text \<open>
  \<^verbatim>\<open>dir.length()\<close> of a sample, and the length given to the arrow of each
  vector channel: \<^verbatim>\<open>Math.max(dir.length() * 0.1, 0.05)\<close> for the gyroscope,
  \<^verbatim>\<open>Math.max(dir.length() * 0.01, 0.03)\<close> for the accelerometer and
  \<^verbatim>\<open>Math.max(dir.length() * 0.001, 0.02)\<close> for the magnetometer.
\<close>

definition vecLength :: "vec3 \<Rightarrow> real" where
  "vecLength v = sqrt (vx v * vx v + vy v * vy v + vz v * vz v)"

datatype channel = Gyroscope | Accelerometer | Magnetometer

fun lengthScale :: "channel \<Rightarrow> real" where
  "lengthScale Gyroscope = 0.1"
| "lengthScale Accelerometer = 0.01"
| "lengthScale Magnetometer = 0.001"

fun minLength :: "channel \<Rightarrow> real" where
  "minLength Gyroscope = 0.05"
| "minLength Accelerometer = 0.03"
| "minLength Magnetometer = 0.02"

definition glyphLength :: "channel \<Rightarrow> vec3 \<Rightarrow> real" where
  "glyphLength ch v = max (vecLength v * lengthScale ch) (minLength ch)"

section \<open>Theorems\<close>

lemma onCalibrationChange_self:
  "onCalibrationChange prev joint offset joint = Some \<lparr>positionOffset = Some offset\<rparr>"
  by (simp add: onCalibrationChange_def split: option.split)

text \<open>
  C10. A calibration change reported for one joint updates only that joint's entry: for
  every other joint name the calibration map has the same value after the update as
  before it.
\<close>

theorem onCalibrationChange_frame:
  "k \<noteq> joint \<Longrightarrow> onCalibrationChange prev joint offset k = prev k"
  by (simp add: onCalibrationChange_def)

theorem onCalibrationChange_frame_witness:
  "''head'' \<noteq> ''lumbar'' \<and>
   onCalibrationChange [''head'' \<mapsto> \<lparr>positionOffset = Some [1, 2, 3]\<rparr>] ''lumbar'' [5, 0, 0] ''head''
     = Some \<lparr>positionOffset = Some [1, 2, 3]\<rparr>"
  using onCalibrationChange_frame [of "''head''" "''lumbar''"
      "[''head'' \<mapsto> \<lparr>positionOffset = Some [1, 2, 3]\<rparr>]" "[5, 0, 0]"]
  by simp

subsection \<open>Structure validation and edge lookup\<close>

lemma fold_upd_map_of:
  "fold (\<lambda>(n, i) m. m(n \<mapsto> i)) ps m = m ++ map_of (rev ps)"
  by (induction ps arbitrary: m) (auto simp: map_add_upd_left)

lemma nameToIdx_eq: "nameToIdx names = map_of (rev (zip names [0..<length names]))"
  by (simp add: nameToIdx_def fold_upd_map_of)

lemma nameToIdx_None: "nameToIdx names a = None \<longleftrightarrow> a \<notin> set names"
proof -
  have "map fst (zip names [0..<length names]) = names"
    by (rule map_fst_zip) simp
  then have "set (map fst (zip names [0..<length names])) = set names"
    by (rule arg_cong)
  then have "fst ` set (zip names [0..<length names]) = set names"
    by (simp only: set_map)
  then show ?thesis
    by (simp add: nameToIdx_eq map_of_eq_None_iff)
qed

lemma nameToIdx_Some:
  assumes "nameToIdx names a = Some i"
  shows "i < length names \<and> names ! i = a"
proof -
  from assms have "(a, i) \<in> set (zip names [0..<length names])"
    by (auto simp: nameToIdx_eq dest: map_of_SomeD)
  then show ?thesis
    by (auto simp: set_zip)
qed

lemma names_of_index_pairs:
  "map (\<lambda>(i, j). (names ! i, names ! j))
     (List.map_filter
        (\<lambda>(a, b). case nameToIdx names a of
                    None \<Rightarrow> None
                  | Some idxA \<Rightarrow>
                      (case nameToIdx names b of
                         None \<Rightarrow> None
                       | Some idxB \<Rightarrow> Some (idxA, idxB))) es) =
   filter (\<lambda>(a, b). a \<in> set names \<and> b \<in> set names) es"
proof (induction es)
  case Nil
  then show ?case by (simp add: List.map_filter_simps)
next
  case (Cons e es)
  obtain a b where e: "e = (a, b)" by (cases e)
  show ?case
    using Cons
    by (auto simp: e List.map_filter_simps nameToIdx_None[symmetric] split: option.splits
        dest: nameToIdx_Some)
qed

lemma index_pairs_in_range:
  "(i, j) \<in> set (List.map_filter
        (\<lambda>(a, b). case nameToIdx names a of
                    None \<Rightarrow> None
                  | Some idxA \<Rightarrow>
                      (case nameToIdx names b of
                         None \<Rightarrow> None
                       | Some idxB \<Rightarrow> Some (idxA, idxB))) es)
   \<Longrightarrow> i < length names \<and> j < length names"
  by (auto simp: List.map_filter_def split: option.splits dest: nameToIdx_Some)

text \<open>
  C9. For a dataset whose sensor names contain every canonical sensor except
  \<^verbatim>\<open>foot_right\<close>, validation reports exactly that sensor as missing; the
  edge index pairs, read back as names, are the canonical edges that do not touch
  \<^verbatim>\<open>foot_right\<close>, in their canonical order (so the one edge ending in it is
  dropped and the other thirteen are kept), and every retained index addresses a sensor
  of the dataset.
\<close>

theorem missing_foot_right:
  assumes others: "\<forall>n \<in> set SENSOR_NAMES. n \<noteq> ''foot_right'' \<longrightarrow> n \<in> set (sensorNames d)"
    and absent: "''foot_right'' \<notin> set (sensorNames d)"
  shows "missingSensors (validateSkeletonStructure d) = [''foot_right''] \<and>
         map (\<lambda>(i, j). (sensorNames d ! i, sensorNames d ! j)) (edgeIndexPairs (Some d)) =
           filter (\<lambda>(a, b). a \<noteq> ''foot_right'' \<and> b \<noteq> ''foot_right'') EDGES \<and>
         length (edgeIndexPairs (Some d)) = 13 \<and>
         list_all (\<lambda>(i, j). i < length (sensorNames d) \<and> j < length (sensorNames d))
           (edgeIndexPairs (Some d))"
proof -
  have ms: "missingSensors (validateSkeletonStructure d) = [''foot_right'']"
    using others absent
    by (simp add: validateSkeletonStructure_def Let_def SENSOR_NAMES_def)
  have names: "map (\<lambda>(i, j). (sensorNames d ! i, sensorNames d ! j)) (edgeIndexPairs (Some d)) =
      filter (\<lambda>(a, b). a \<in> set (sensorNames d) \<and> b \<in> set (sensorNames d)) EDGES"
    by (simp add: edgeIndexPairs_def names_of_index_pairs)
  have flt: "filter (\<lambda>(a, b). a \<in> set (sensorNames d) \<and> b \<in> set (sensorNames d)) EDGES =
      filter (\<lambda>(a, b). a \<noteq> ''foot_right'' \<and> b \<noteq> ''foot_right'') EDGES"
    using others absent
    by (simp add: EDGES_def SENSOR_NAMES_def)
  have "length (map (\<lambda>(i, j). (sensorNames d ! i, sensorNames d ! j)) (edgeIndexPairs (Some d))) = 13"
    unfolding names flt by (simp add: EDGES_def)
  then have len: "length (edgeIndexPairs (Some d)) = 13"
    by simp
  have rng: "list_all (\<lambda>(i, j). i < length (sensorNames d) \<and> j < length (sensorNames d))
           (edgeIndexPairs (Some d))"
    unfolding list_all_iff edgeIndexPairs_def option.case
    using index_pairs_in_range by fastforce
  show ?thesis
    using ms names flt len rng by simp
qed

theorem missing_foot_right_witness:
  "missingSensors (validateSkeletonStructure
      \<lparr>frameRate = 30, sensorNames = butlast SENSOR_NAMES, edges = butlast EDGES,
          numFrames = 1, numSensors = 14, frames = [replicate 14 [0, 0, 0]]\<rparr>) = [''foot_right''] \<and>
   edgeIndexPairs (Some
      \<lparr>frameRate = 30, sensorNames = butlast SENSOR_NAMES, edges = butlast EDGES,
          numFrames = 1, numSensors = 14, frames = [replicate 14 [0, 0, 0]]\<rparr>) =
     [(0, 1), (1, 4), (1, 2), (1, 3), (2, 5), (5, 7), (3, 6), (6, 8), (4, 9),
      (4, 10), (9, 11), (11, 13), (10, 12)]"
proof -
  let ?d = "\<lparr>frameRate = 30, sensorNames = butlast SENSOR_NAMES, edges = butlast EDGES,
          numFrames = 1, numSensors = 14, frames = [replicate 14 [0, 0, 0]]\<rparr>"
  have h1: "\<forall>n \<in> set SENSOR_NAMES. n \<noteq> ''foot_right'' \<longrightarrow> n \<in> set (sensorNames ?d)"
    by (simp add: SENSOR_NAMES_def)
  have h2: "''foot_right'' \<notin> set (sensorNames ?d)"
    by (simp add: SENSOR_NAMES_def)
  have e: "edgeIndexPairs (Some ?d) =
     [(0, 1), (1, 4), (1, 2), (1, 3), (2, 5), (5, 7), (3, 6), (6, 8), (4, 9),
      (4, 10), (9, 11), (11, 13), (10, 12)]"
    by code_simp
  show ?thesis
    using missing_foot_right [OF h1 h2] e by simp
qed

subsection \<open>Calibration import\<close>

lemma finiteNumber_Some: "finiteNumber v = Some r \<longleftrightarrow> v = JNumber (Finite r)"
  by (cases v rule: finiteNumber.cases) auto

lemma those_three:
  assumes "length vs = 3"
  shows "those (map finiteNumber vs) = Some off \<longleftrightarrow>
     (\<exists>a b c. vs = [JNumber (Finite a), JNumber (Finite b), JNumber (Finite c)] \<and> off = [a, b, c])"
proof -
  from assms obtain u v w where vs: "vs = [u, v, w]"
    by (auto simp: length_Suc_conv numeral_3_eq_3)
  show ?thesis
    unfolding vs
    by (auto simp: finiteNumber_Some split: option.splits)
qed

lemma validOffset_Some:
  "validOffset off = Some xs \<longleftrightarrow>
     (\<exists>a b c. off = Some (JArray [JNumber (Finite a), JNumber (Finite b), JNumber (Finite c)]) \<and>
        xs = [a, b, c])"
proof (cases off rule: validOffset.cases)
  case (1 vs)
  show ?thesis
  proof (cases "length vs = 3")
    case True
    then show ?thesis using 1 those_three [OF True, of xs] by auto
  next
    case False
    then show ?thesis using 1 by auto
  qed
qed auto

lemma importEntry_other: "k \<noteq> key \<Longrightarrow> importEntry props key next k = next k"
  by (simp add: importEntry_def split: option.splits)

lemma importEntry_same:
  "importEntry props key next key =
     (case importEntry props key Map.empty key of None \<Rightarrow> next key | Some e \<Rightarrow> Some e)"
  by (simp add: importEntry_def split: option.splits)

lemma fold_importEntry:
  "fold (importEntry props) keys m k =
     (if k \<in> set keys
      then (case importEntry props k Map.empty k of None \<Rightarrow> m k | Some e \<Rightarrow> Some e)
      else m k)"
proof (induction keys arbitrary: m)
  case Nil
  then show ?case by simp
next
  case (Cons key keys)
  show ?case
  proof (cases "k = key")
    case True
    then show ?thesis
      using Cons [of "importEntry props key m"] importEntry_same [of props key m]
      by (auto split: option.splits)
  next
    case False
    then show ?thesis
      using Cons [of "importEntry props key m"] by (simp add: importEntry_other split: option.splits)
  qed
qed

lemma importEntry_empty_Some:
  "importEntry props k Map.empty k = Some e \<longleftrightarrow>
     k \<noteq> ''__proto__'' \<and>
     (\<exists>fields a b c. map_of props k = Some (JObject fields) \<and>
        map_of fields ''positionOffset'' =
          Some (JArray [JNumber (Finite a), JNumber (Finite b), JNumber (Finite c)]) \<and>
        e = \<lparr>positionOffset = Some [a, b, c]\<rparr>)"
proof (cases "map_of props k")
  case None
  then show ?thesis by (simp add: importEntry_def)
next
  case (Some entry)
  show ?thesis
  proof (cases entry)
    case (JObject fields)
    then show ?thesis
      using Some validOffset_Some [of "map_of fields ''positionOffset''"]
      by (auto simp: importEntry_def split: option.splits)
  qed (use Some in \<open>auto simp: importEntry_def\<close>)
qed

text \<open>
  What the import keeps.  Importing a parsed file that is an object (or an array) raises
  nothing: the body of the handler returns normally and the handler installs its result.
  The result has an entry under a key exactly when the key is not
  \<^verbatim>\<open>__proto__\<close> and the file has, under that key, an object whose
  \<^verbatim>\<open>positionOffset\<close> is an array of three finite numbers; the entry then
  carries those three numbers.
\<close>

lemma importHandler_entries:
  assumes "truthy raw" and "typeofObject raw"
  shows "importCalibration raw = Inr (importHandler (Parsed raw) prev) \<and>
     (importHandler (Parsed raw) prev key = Some e \<longleftrightarrow>
        key \<noteq> ''__proto__'' \<and>
        (\<exists>fields a b c. map_of (ownEntries raw) key = Some (JObject fields) \<and>
           map_of fields ''positionOffset'' =
             Some (JArray [JNumber (Finite a), JNumber (Finite b), JNumber (Finite c)]) \<and>
           e = \<lparr>positionOffset = Some [a, b, c]\<rparr>))"
proof -
  have h: "importHandler (Parsed raw) prev =
      fold (importEntry (ownEntries raw)) (map fst (ownEntries raw)) Map.empty"
    using assms by (simp add: importHandler_def importCalibration_def)
  have c: "importCalibration raw = Inr (importHandler (Parsed raw) prev)"
    using assms by (simp add: importHandler_def importCalibration_def)
  have "importHandler (Parsed raw) prev key = importEntry (ownEntries raw) key Map.empty key"
  proof (cases "key \<in> set (map fst (ownEntries raw))")
    case True
    then show ?thesis
      unfolding h fold_importEntry by (simp split: option.splits)
  next
    case False
    then have "map_of (ownEntries raw) key = None"
      by (simp add: map_of_eq_None_iff)
    then show ?thesis
      using False unfolding h fold_importEntry by (simp add: importEntry_def)
  qed
  then show ?thesis
    using c importEntry_empty_Some [of "ownEntries raw" key e] by simp
qed

lemma importHandler_rejects:
  "importHandler NoFile prev = prev"
  "importHandler Unparsable prev = prev"
  "\<not> truthy raw \<or> \<not> typeofObject raw \<Longrightarrow> importHandler (Parsed raw) prev = prev"
  by (auto simp: importHandler_def importCalibration_def)

text \<open>
  The file of the scenario, with one valid entry \<^verbatim>\<open>head\<close> and one malformed
  entry \<^verbatim>\<open>ghost\<close>, replaces the calibration by the single entry
  \<^verbatim>\<open>head\<close>.
\<close>

lemma import_head_ghost:
  "importHandler
     (Parsed (JObject
        [(''head'', JObject [(''positionOffset'',
            JArray [JNumber (Finite (1 / 10)), JNumber (Finite 0), JNumber (Finite (- (1 / 5)))])]),
         (''ghost'', JString ''bad'')]))
     [''lumbar'' \<mapsto> \<lparr>positionOffset = Some [5, 0, 0]\<rparr>]
   = [''head'' \<mapsto> \<lparr>positionOffset = Some [1 / 10, 0, - (1 / 5)]\<rparr>]"
  by (simp add: importHandler_def importCalibration_def importEntry_def)

text \<open>
  C4, at a failing input.  The file
  \<^verbatim>\<open>{"__proto__": {"positionOffset": [1, 2, 3]}, "head": {"positionOffset": [0.1, 0, -0.2]}}\<close>
  has two entries whose \<^verbatim>\<open>positionOffset\<close> is an array of three finite
  numbers.  The import raises nothing, but the resulting calibration holds
  \<^verbatim>\<open>head\<close> only: the entry under \<^verbatim>\<open>__proto__\<close> is not in it.
\<close>

theorem proto_entry_not_imported:
  "importCalibration
     (JObject
        [(''__proto__'', JObject [(''positionOffset'',
            JArray [JNumber (Finite 1), JNumber (Finite 2), JNumber (Finite 3)])]),
         (''head'', JObject [(''positionOffset'',
            JArray [JNumber (Finite (1 / 10)), JNumber (Finite 0), JNumber (Finite (- (1 / 5)))])])])
   = Inr [''head'' \<mapsto> \<lparr>positionOffset = Some [1 / 10, 0, - (1 / 5)]\<rparr>] \<and>
   importHandler
     (Parsed (JObject
        [(''__proto__'', JObject [(''positionOffset'',
            JArray [JNumber (Finite 1), JNumber (Finite 2), JNumber (Finite 3)])]),
         (''head'', JObject [(''positionOffset'',
            JArray [JNumber (Finite (1 / 10)), JNumber (Finite 0), JNumber (Finite (- (1 / 5)))])])]))
     Map.empty
   = [''head'' \<mapsto> \<lparr>positionOffset = Some [1 / 10, 0, - (1 / 5)]\<rparr>]"
  by (simp add: importHandler_def importCalibration_def importEntry_def)

theorem proto_entry_not_imported_witness:
  "importHandler
     (Parsed (JObject
        [(''__proto__'', JObject [(''positionOffset'',
            JArray [JNumber (Finite 1), JNumber (Finite 2), JNumber (Finite 3)])]),
         (''head'', JObject [(''positionOffset'',
            JArray [JNumber (Finite (1 / 10)), JNumber (Finite 0), JNumber (Finite (- (1 / 5)))])])]))
     Map.empty ''__proto__'' = None"
  using proto_entry_not_imported by simp

subsection \<open>Playback clock\<close>

lemma tickLoop_count:
  assumes "0 < interval" and "k \<le> maxSkip"
    and "tickLoop interval maxSkip n s k = (s', k')"
  shows "k' = min (k + nat \<lfloor>accumulator s / interval\<rfloor>) maxSkip \<and>
         accumulator s' = accumulator s - real (k' - k) * interval"
  using assms
proof (induction interval maxSkip n s k rule: tickLoop.induct)
  case (1 interval maxSkip n s k)
  show ?case
  proof (cases "accumulator s \<ge> interval \<and> k < maxSkip")
    case True
    let ?s = "s\<lparr>accumulator := accumulator s - interval,
                currentFrame := advanceFrame (currentFrame s) n,
                rendered := rendered s @ [advanceFrame (currentFrame s) n]\<rparr>"
    from True "1.prems" have rec: "tickLoop interval maxSkip n ?s (k + 1) = (s', k')"
      by (simp add: tickLoop.simps [of interval maxSkip n s k])
    from True have k1: "k + 1 \<le> maxSkip" by simp
    have ih: "k' = min (k + 1 + nat \<lfloor>accumulator ?s / interval\<rfloor>) maxSkip \<and>
         accumulator s' = accumulator ?s - real (k' - (k + 1)) * interval"
      using "1.IH" [OF True "1.prems"(1) k1 rec] .
    have acc: "accumulator ?s = accumulator s - interval"
      by simp
    have ih1: "k' = min (k + 1 + nat \<lfloor>(accumulator s - interval) / interval\<rfloor>) maxSkip"
      and ih2: "accumulator s' = accumulator s - interval - real (k' - (k + 1)) * interval"
      using ih unfolding acc by blast+
    have "(accumulator s - interval) / interval = accumulator s / interval - 1"
      using "1.prems"(1) by (simp add: diff_divide_distrib)
    then have fl: "\<lfloor>(accumulator s - interval) / interval\<rfloor> = \<lfloor>accumulator s / interval\<rfloor> - 1"
      by simp
    have "1 \<le> accumulator s / interval"
      using True "1.prems"(1) by simp
    then have ge1: "1 \<le> \<lfloor>accumulator s / interval\<rfloor>"
      by linarith
    have cnt: "k + 1 + nat \<lfloor>(accumulator s - interval) / interval\<rfloor> =
        k + nat \<lfloor>accumulator s / interval\<rfloor>"
      unfolding fl using ge1 by linarith
    have c1: "k' = min (k + nat \<lfloor>accumulator s / interval\<rfloor>) maxSkip"
      using ih1 unfolding cnt .
    have kk: "k + 1 \<le> k'"
      using ih1 k1 by simp
    then have "real (k' - k) = real (k' - (k + 1)) + 1"
      by (simp add: of_nat_diff)
    then have c2: "accumulator s' = accumulator s - real (k' - k) * interval"
      using ih2 by (simp add: algebra_simps)
    show ?thesis
      using c1 c2 by blast
  next
    case False
    with "1.prems" have res: "s' = s" "k' = k"
      by (simp_all add: tickLoop.simps [of interval maxSkip n s k])
    show ?thesis
    proof (cases "k < maxSkip")
      case True
      with False have "accumulator s < interval" by simp
      then have "accumulator s / interval < 1"
        using "1.prems"(1) by simp
      then have "\<lfloor>accumulator s / interval\<rfloor> \<le> 0"
        by linarith
      then show ?thesis
        using res "1.prems"(2) by simp
    next
      case False
      then show ?thesis
        using res "1.prems"(2) by simp
    qed
  qed
qed

lemma tickLoop_frameInRange:
  assumes "1 \<le> numFrames d" and "frameInRange d s"
    and "tickLoop interval maxSkip (numFrames d) s k = (s', k')"
  shows "frameInRange d s'"
  using assms(2,3)
proof (induction interval maxSkip "numFrames d" s k rule: tickLoop.induct)
  case (1 interval maxSkip s k)
  show ?case
  proof (cases "accumulator s \<ge> interval \<and> k < maxSkip")
    case True
    let ?s = "s\<lparr>accumulator := accumulator s - interval,
                currentFrame := advanceFrame (currentFrame s) (numFrames d),
                rendered := rendered s @ [advanceFrame (currentFrame s) (numFrames d)]\<rparr>"
    from True "1.prems" have rec: "tickLoop interval maxSkip (numFrames d) ?s (k + 1) = (s', k')"
      by (simp add: tickLoop.simps [of interval maxSkip "numFrames d" s k])
    from "1.prems"(1) obtain c where c: "currentFrame s = Frame c" "0 \<le> c" "c < numFrames d"
      by (auto simp: frameInRange_def split: frame_number.splits)
    have "(c + 1) smod numFrames d = (c + 1) mod numFrames d"
      using c assms(1) by (simp add: signed_modulo_int_def)
    then have "frameInRange d ?s"
      using c assms(1) by (simp add: frameInRange_def)
    then show ?thesis
      using "1.hyps" [OF True _ rec] by simp
  next
    case False
    with "1.prems" show ?thesis
      by (simp add: tickLoop.simps [of interval maxSkip "numFrames d" s k])
  qed
qed


lemma tickLoop_flags:
  assumes "tickLoop interval maxSkip n s k = (s', k')"
  shows "isSeeking s' = isSeeking s \<and> isDragging s' = isDragging s \<and>
         lastTime s' = lastTime s \<and> rafRequests s' = rafRequests s \<and>
         frameSkip s' = frameSkip s"
  using assms
proof (induction interval maxSkip n s k rule: tickLoop.induct)
  case (1 interval maxSkip n s k)
  show ?case
  proof (cases "accumulator s \<ge> interval \<and> k < maxSkip")
    case True
    let ?s = "s\<lparr>accumulator := accumulator s - interval,
                currentFrame := advanceFrame (currentFrame s) n,
                rendered := rendered s @ [advanceFrame (currentFrame s) n]\<rparr>"
    from True "1.prems" have rec: "tickLoop interval maxSkip n ?s (k + 1) = (s', k')"
      by (simp add: tickLoop.simps [of interval maxSkip n s k])
    show ?thesis
      using "1.IH" [OF True rec] by simp
  next
    case False
    with "1.prems" show ?thesis
      by (simp add: tickLoop.simps [of interval maxSkip n s k])
  qed
qed

lemma intervalMs_pos: "0 < fps P d \<Longrightarrow> 0 < intervalMs P d"
  by (simp add: intervalMs_def)

text \<open>
  The branch of \<^verbatim>\<open>tick\<close> that counts ticks on which the clock is falling behind
  is never taken: when the loop has advanced no frame, less than one interval is
  accumulated.  So \<^verbatim>\<open>frameSkip\<close> is 0 after every playing tick.
\<close>

lemma tick_frameSkip:
  assumes "0 < fps P d" and "isPlaying P" and "\<not> isSeeking s" and "\<not> isDragging s"
  shows "frameSkip (tick P d time s) = 0"
proof -
  let ?s1 = "s\<lparr>rafRequests := rafRequests s + 1, lastTime := time,
               accumulator := accumulator s + (time - lastTime s)\<rparr>"
  obtain s2 k where loop: "tickLoop (intervalMs P d) (maxFrameSkip P) (numFrames d) ?s1 0 = (s2, k)"
    by (cases "tickLoop (intervalMs P d) (maxFrameSkip P) (numFrames d) ?s1 0")
  have t: "tick P d time s =
      (if k = 0 \<and> accumulator s2 > intervalMs P d * 2
       then s2\<lparr>frameSkip := frameSkip s2 + 1\<rparr> else s2\<lparr>frameSkip := 0\<rparr>)"
    using assms(2-4) loop by (simp add: tick_def Let_def)
  have pos: "0 < intervalMs P d"
    by (rule intervalMs_pos [OF assms(1)])
  have cnt: "k = min (0 + nat \<lfloor>accumulator ?s1 / intervalMs P d\<rfloor>) (maxFrameSkip P) \<and>
      accumulator s2 = accumulator ?s1 - real (k - 0) * intervalMs P d"
    by (rule tickLoop_count [OF pos _ loop]) simp
  have "\<not> (k = 0 \<and> accumulator s2 > intervalMs P d * 2)"
  proof
    assume a: "k = 0 \<and> accumulator s2 > intervalMs P d * 2"
    then have same: "accumulator s2 = accumulator ?s1"
      using cnt by simp
    have "0 < maxFrameSkip P"
      by (simp add: maxFrameSkip_def)
    with a cnt have "nat \<lfloor>accumulator ?s1 / intervalMs P d\<rfloor> = 0"
      by (simp add: min_def split: if_splits)
    then have "accumulator ?s1 / intervalMs P d < 1"
      by linarith
    then have "accumulator ?s1 < intervalMs P d"
      using pos by (simp add: divide_less_eq)
    with a same pos show False
      by simp
  qed
  then show ?thesis
    unfolding t by simp
qed

lemma tick_frameInRange:
  assumes "1 \<le> numFrames d" and "frameInRange d s"
  shows "frameInRange d (tick P d time s)"
proof (cases "\<not> isPlaying P \<or> isSeeking s \<or> isDragging s")
  case True
  then show ?thesis
    using assms(2) by (auto simp: tick_def Let_def frameInRange_def)
next
  case False
  let ?s1 = "s\<lparr>rafRequests := rafRequests s + 1, lastTime := time,
               accumulator := accumulator s + (time - lastTime s)\<rparr>"
  obtain s2 k where loop: "tickLoop (intervalMs P d) (maxFrameSkip P) (numFrames d) ?s1 0 = (s2, k)"
    by (cases "tickLoop (intervalMs P d) (maxFrameSkip P) (numFrames d) ?s1 0")
  have t: "tick P d time s =
      (if k = 0 \<and> accumulator s2 > intervalMs P d * 2
       then s2\<lparr>frameSkip := frameSkip s2 + 1\<rparr> else s2\<lparr>frameSkip := 0\<rparr>)"
    using False loop by (simp add: tick_def Let_def)
  have "frameInRange d ?s1"
    using assms(2) by (simp add: frameInRange_def)
  then have "frameInRange d s2"
    by (rule tickLoop_frameInRange [OF assms(1) _ loop])
  then show ?thesis
    unfolding t by (simp add: frameInRange_def)
qed

lemma seekEffect_frameInRange:
  assumes "1 \<le> numFrames d" and "frameInRange d s"
  shows "frameInRange d (seekEffect (Some d) k s)"
  using assms
  by (cases k) (auto simp: seekEffect_def seekTarget_def frameInRange_def)

lemma clockStep_frameInRange:
  assumes "1 \<le> numFrames d" and "frameInRange d s"
  shows "frameInRange d (clockStep d pe s)"
proof (cases pe)
  case (Pair P e)
  show ?thesis
  proof (cases e)
    case (Tick time)
    then show ?thesis
      using Pair tick_frameInRange [OF assms] by simp
  next
    case (SeekFrame k)
    then show ?thesis
      using Pair seekEffect_frameInRange [OF assms] by simp
  next
    case (DraggingChanged v)
    then show ?thesis
      using Pair assms(2) by (simp add: draggingChanged_def frameInRange_def)
  next
    case (Restart now)
    then show ?thesis
      using Pair assms(2) by (simp add: startClock_def frameInRange_def)
  qed
qed

lemma runClock_frameInRange:
  assumes "1 \<le> numFrames d"
  shows "frameInRange d s \<Longrightarrow> frameInRange d (runClock d evs s)"
  unfolding runClock_def
proof (induction evs arbitrary: s)
  case Nil
  then show ?case by simp
next
  case (Cons pe evs)
  have "frameInRange d (clockStep d pe s)"
    by (rule clockStep_frameInRange [OF assms Cons.prems])
  then show ?case
    using Cons.IH by simp
qed

text \<open>
  C3. For a dataset with at least one frame, after any sequence of ticks, seeks, drag
  starts and ends and restarts of the clock, applied to the clock of a freshly loaded
  dataset, the current frame is an integer with \<open>0 \<le> currentFrame < numFrames\<close>;
  and one advance from the last frame \<open>numFrames - 1\<close> gives frame 0.
\<close>

theorem currentFrame_in_range:
  assumes "1 \<le> numFrames d"
  shows "frameInRange d (runClock d evs (loadedClock now)) \<and>
         advanceFrame (Frame (numFrames d - 1)) (numFrames d) = Frame 0"
proof -
  have "frameInRange d (loadedClock now)"
    using assms by (simp add: frameInRange_def loadedClock_def)
  then have "frameInRange d (runClock d evs (loadedClock now))"
    by (rule runClock_frameInRange [OF assms])
  moreover have "advanceFrame (Frame (numFrames d - 1)) (numFrames d) = Frame 0"
    using assms by (simp add: signed_modulo_int_def)
  ultimately show ?thesis ..
qed

lemmas clock_eval =
  tick_def intervalMs_def fps_def maxFrameSkip_def tickLoop.simps loadedClock_def
  seekEffect_def seekTarget_def draggingChanged_def startClock_def runClock_def
  signed_modulo_int_def Let_def

theorem currentFrame_in_range_witness:
  "(1::int) \<le> numFrames \<lparr>frameRate = 50, sensorNames = SENSOR_NAMES, edges = EDGES,
       numFrames = 3, numSensors = 15, frames = []\<rparr> \<and>
   currentFrame (runClock
     \<lparr>frameRate = 50, sensorNames = SENSOR_NAMES, edges = EDGES,
       numFrames = 3, numSensors = 15, frames = []\<rparr>
     [(\<lparr>isPlaying = True, targetFps = 0, isSafari = False\<rparr>, Tick 20),
      (\<lparr>isPlaying = True, targetFps = 0, isSafari = False\<rparr>, Tick 40),
      (\<lparr>isPlaying = True, targetFps = 0, isSafari = False\<rparr>, Tick 60)]
     (loadedClock 0)) = Frame 0 \<and>
   currentFrame (runClock
     \<lparr>frameRate = 50, sensorNames = SENSOR_NAMES, edges = EDGES,
       numFrames = 3, numSensors = 15, frames = []\<rparr>
     [(\<lparr>isPlaying = True, targetFps = 0, isSafari = False\<rparr>, Tick 20),
      (\<lparr>isPlaying = True, targetFps = 0, isSafari = False\<rparr>, SeekFrame (Some 99))]
     (loadedClock 0)) = Frame 2"
proof -
  let ?d = "\<lparr>frameRate = 50, sensorNames = SENSOR_NAMES, edges = EDGES,
       numFrames = 3, numSensors = 15, frames = []\<rparr>"
  let ?P = "\<lparr>isPlaying = True, targetFps = 0, isSafari = False\<rparr>"
  have h: "1 \<le> numFrames ?d"
    by simp
  have a: "currentFrame (runClock ?d [(?P, Tick 20), (?P, Tick 40), (?P, Tick 60)] (loadedClock 0)) = Frame 0"
    by (simp add: clock_eval)
  have b: "currentFrame (runClock ?d [(?P, Tick 20), (?P, SeekFrame (Some 99))] (loadedClock 0)) = Frame 2"
    by (simp add: clock_eval)
  show ?thesis
    using currentFrame_in_range [OF h, of "[(?P, Tick 20), (?P, Tick 40), (?P, Tick 60)]" 0] a b
    by simp
qed

text \<open>
  C5. A tick that finds \<^verbatim>\<open>isSeeking\<close> or a drag active leaves the current
  frame alone and hands no frame to the renderer.  The timer keeps running (the callback
  has requested its next frame), and no backlog builds up: the accumulator is unchanged,
  \<^verbatim>\<open>lastTime\<close> is moved to the time of the tick, and the state after the
  tick does not depend on how long ago the previous tick was.
\<close>

theorem suspended_tick:
  assumes "isSeeking s \<or> isDragging s"
  shows "currentFrame (tick P d time s) = currentFrame s \<and>
         rendered (tick P d time s) = rendered s \<and>
         accumulator (tick P d time s) = accumulator s \<and>
         lastTime (tick P d time s) = time \<and>
         rafRequests (tick P d time s) = rafRequests s + 1 \<and>
         tick P d time (s\<lparr>lastTime := earlier\<rparr>) = tick P d time s"
  using assms by (auto simp: tick_def Let_def)

theorem suspended_tick_witness:
  "(isSeeking (draggingChanged True (loadedClock 0)) \<or> isDragging (draggingChanged True (loadedClock 0))) \<and>
   currentFrame (tick \<lparr>isPlaying = True, targetFps = 50, isSafari = False\<rparr>
     \<lparr>frameRate = 30, sensorNames = SENSOR_NAMES, edges = EDGES,
       numFrames = 100, numSensors = 15, frames = []\<rparr> 5000
     (draggingChanged True (loadedClock 0))) = Frame 0 \<and>
   currentFrame (tick \<lparr>isPlaying = True, targetFps = 50, isSafari = False\<rparr>
     \<lparr>frameRate = 30, sensorNames = SENSOR_NAMES, edges = EDGES,
       numFrames = 100, numSensors = 15, frames = []\<rparr> 5020
     (draggingChanged False
       (tick \<lparr>isPlaying = True, targetFps = 50, isSafari = False\<rparr>
         \<lparr>frameRate = 30, sensorNames = SENSOR_NAMES, edges = EDGES,
           numFrames = 100, numSensors = 15, frames = []\<rparr> 5000
         (draggingChanged True (loadedClock 0))))) = Frame 1"
proof -
  let ?d = "\<lparr>frameRate = 30, sensorNames = SENSOR_NAMES, edges = EDGES,
       numFrames = 100, numSensors = 15, frames = []\<rparr>"
  let ?P = "\<lparr>isPlaying = True, targetFps = 50, isSafari = False\<rparr>"
  let ?s = "draggingChanged True (loadedClock 0)"
  have h: "isSeeking ?s \<or> isDragging ?s"
    by (simp add: draggingChanged_def)
  have a: "currentFrame ?s = Frame 0"
    by (simp add: draggingChanged_def loadedClock_def)
  have b: "currentFrame (tick ?P ?d 5020 (draggingChanged False (tick ?P ?d 5000 ?s))) = Frame 1"
    by (simp add: clock_eval)
  show ?thesis
    using suspended_tick [OF h, of ?P ?d 5000 0] a b h by simp
qed




text \<open>
  C6, at a failing input.  With a dataset of zero frames, the first playing tick that has
  one interval accumulated takes the remainder by zero and stores
  \<^verbatim>\<open>NaN\<close> as the current frame; the seek effect, which tests
  \<^verbatim>\<open>numFrames\<close> first, keeps frame 0 on the same dataset.
\<close>

theorem zero_frames_tick:
  "currentFrame (tick \<lparr>isPlaying = True, targetFps = 50, isSafari = False\<rparr>
     \<lparr>frameRate = 30, sensorNames = SENSOR_NAMES, edges = EDGES,
       numFrames = 0, numSensors = 15, frames = []\<rparr> 20 (loadedClock 0)) = NaN \<and>
   currentFrame (seekEffect
     (Some \<lparr>frameRate = 30, sensorNames = SENSOR_NAMES, edges = EDGES,
       numFrames = 0, numSensors = 15, frames = []\<rparr>) (Some 7) (loadedClock 0)) = Frame 0"
  by (simp add: clock_eval)

theorem zero_frames_tick_witness:
  "currentFrame (tick \<lparr>isPlaying = True, targetFps = 50, isSafari = False\<rparr>
     \<lparr>frameRate = 30, sensorNames = SENSOR_NAMES, edges = EDGES,
       numFrames = 0, numSensors = 15, frames = []\<rparr> 20 (loadedClock 0)) \<noteq> Frame 0"
  using zero_frames_tick by simp

subsection \<open>Vector glyphs\<close>

lemma vecLength_axis: "vecLength (Vector3 a 0 0) = \<bar>a\<bar>"
  by (simp add: vecLength_def)

lemma lengthScale_pos: "0 < lengthScale ch"
  by (cases ch) simp_all

text \<open>
  C8, as amended.  For each vector channel the glyph length is a monotonic function of the
  magnitude of the sample and never below the channel's minimum visible length (0.05,
  0.03 and 0.02); above that floor it is the magnitude times the channel's scale, with no
  upper cap.
\<close>

theorem glyphLength_monotone_floored:
  "(vecLength u \<le> vecLength v \<longrightarrow> glyphLength ch u \<le> glyphLength ch v) \<and>
   minLength ch \<le> glyphLength ch v \<and>
   (minLength ch \<le> vecLength v * lengthScale ch \<longrightarrow>
      glyphLength ch v = vecLength v * lengthScale ch)"
proof -
  have "vecLength u \<le> vecLength v \<longrightarrow> glyphLength ch u \<le> glyphLength ch v"
  proof
    assume "vecLength u \<le> vecLength v"
    then have "vecLength u * lengthScale ch \<le> vecLength v * lengthScale ch"
      using lengthScale_pos [of ch] by simp
    then show "glyphLength ch u \<le> glyphLength ch v"
      by (simp add: glyphLength_def max.coboundedI1)
  qed
  then show ?thesis
    by (simp add: glyphLength_def)
qed

theorem glyphLength_monotone_floored_witness:
  "vecLength (Vector3 3 0 0) \<le> vecLength (Vector3 0 4 0) \<and>
   glyphLength Gyroscope (Vector3 3 0 0) \<le> glyphLength Gyroscope (Vector3 0 4 0) \<and>
   glyphLength Gyroscope (Vector3 0 0 0) = 0.05 \<and>
   glyphLength Gyroscope (Vector3 1000 0 0) = 100"
proof -
  have l: "vecLength (Vector3 3 0 0) \<le> vecLength (Vector3 0 4 0)"
    by (simp add: vecLength_def)
  have m: "minLength Gyroscope \<le> vecLength (Vector3 1000 0 0) * lengthScale Gyroscope"
    by (simp add: vecLength_axis)
  have a: "glyphLength Gyroscope (Vector3 3 0 0) \<le> glyphLength Gyroscope (Vector3 0 4 0)"
    using glyphLength_monotone_floored [of "Vector3 3 0 0" "Vector3 0 4 0" Gyroscope] l by blast
  have b: "glyphLength Gyroscope (Vector3 0 0 0) = 0.05"
    by (simp add: glyphLength_def vecLength_def)
  have c: "glyphLength Gyroscope (Vector3 1000 0 0) = 100"
    using glyphLength_monotone_floored [of "Vector3 1000 0 0" "Vector3 1000 0 0" Gyroscope] m
    by (simp add: vecLength_axis)
  show ?thesis
    using l a b c by blast
qed

text \<open>
  C8 as stated fails in its last part: the length is not capped above.  A gyroscope sample
  of magnitude 1000 gives an arrow of length 100, and no bound holds for all samples.
\<close>

theorem glyphLength_unbounded:
  "glyphLength Gyroscope (Vector3 1000 0 0) = 100 \<and>
   \<not> (\<exists>cap. \<forall>v. glyphLength Gyroscope v \<le> cap)"
proof (rule conjI)
  show "glyphLength Gyroscope (Vector3 1000 0 0) = 100"
    by (simp add: glyphLength_def vecLength_axis)
next
  show "\<not> (\<exists>cap. \<forall>v. glyphLength Gyroscope v \<le> cap)"
  proof
    assume "\<exists>cap. \<forall>v. glyphLength Gyroscope v \<le> cap"
    then obtain cap where cap: "\<forall>v. glyphLength Gyroscope v \<le> cap"
      by blast
    have "glyphLength Gyroscope (Vector3 (10 * \<bar>cap\<bar> + 10) 0 0) \<le> cap"
      using cap by blast
    moreover have "\<bar>cap\<bar> + 1 \<le> glyphLength Gyroscope (Vector3 (10 * \<bar>cap\<bar> + 10) 0 0)"
      by (simp add: glyphLength_def vecLength_axis)
    ultimately show False
      by linarith
  qed
qed

subsection \<open>Pose resolution\<close>

lemma updateJoints_frame:
  "updateJoints d frame sel todo s = (s', e) \<Longrightarrow>
     sceneRef s' = sceneRef s \<and> cameraRef s' = cameraRef s \<and> controlsRef s' = controlsRef s \<and>
     bonesRef s' = bonesRef s \<and> calibrationRef s' = calibrationRef s \<and>
     selectedJointRef s' = selectedJointRef s \<and> isDraggingRef s' = isDraggingRef s \<and>
     length (jointsRef s') = length (jointsRef s) \<and>
     length (jointPositionsRef s') = length (jointPositionsRef s)"
proof (induction todo arbitrary: s)
  case Nil
  then show ?case by simp
next
  case (Cons i rest)
  let ?pos = "resolvedPosition d (calibrationRef s) frame i"
  let ?s1 = "s\<lparr>jointPositionsRef := (jointPositionsRef s)[i := ?pos]\<rparr>"
  let ?s2 = "?s1\<lparr>jointsRef := (jointsRef ?s1)[i := ?pos]\<rparr>"
  from Cons.prems consider
      (stop) "s' = s"
    | (stop1) "s' = ?s1"
    | (go2) "updateJoints d frame sel rest ?s2 = (s', e)"
    | (go1) "updateJoints d frame sel rest ?s1 = (s', e)"
    by (auto simp: Let_def split: if_splits)
  then show ?case
  proof cases
    case stop
    then show ?thesis by simp
  next
    case stop1
    then show ?thesis by simp
  next
    case go2
    from Cons.IH [OF go2] show ?thesis by simp
  next
    case go1
    from Cons.IH [OF go1] show ?thesis by simp
  qed
qed

lemma updateJoints_others:
  "updateJoints d frame sel todo s = (s', e) \<Longrightarrow> j \<notin> set todo \<Longrightarrow>
     jointPositionsRef s' ! j = jointPositionsRef s ! j \<and> jointsRef s' ! j = jointsRef s ! j"
proof (induction todo arbitrary: s)
  case Nil
  then show ?case by simp
next
  case (Cons i rest)
  let ?pos = "resolvedPosition d (calibrationRef s) frame i"
  let ?s1 = "s\<lparr>jointPositionsRef := (jointPositionsRef s)[i := ?pos]\<rparr>"
  let ?s2 = "?s1\<lparr>jointsRef := (jointsRef ?s1)[i := ?pos]\<rparr>"
  from Cons.prems(2) have ji: "j \<noteq> i" and jr: "j \<notin> set rest"
    by auto
  from Cons.prems(1) consider
      (stop) "s' = s"
    | (stop1) "s' = ?s1"
    | (go2) "updateJoints d frame sel rest ?s2 = (s', e)"
    | (go1) "updateJoints d frame sel rest ?s1 = (s', e)"
    by (auto simp: Let_def split: if_splits)
  then show ?case
  proof cases
    case stop
    then show ?thesis by simp
  next
    case stop1
    then show ?thesis using ji by simp
  next
    case go2
    from Cons.IH [OF go2 jr] show ?thesis using ji by simp
  next
    case go1
    from Cons.IH [OF go1 jr] show ?thesis using ji by simp
  qed
qed

lemma updateJoints_positions:
  "updateJoints d frame sel todo s = (s', None) \<Longrightarrow> distinct todo \<Longrightarrow> i \<in> set todo \<Longrightarrow>
     jointPositionsRef s' ! i = resolvedPosition d (calibrationRef s) frame i \<and>
     (sel \<noteq> Some i \<or> \<not> isDraggingRef s \<longrightarrow>
        jointsRef s' ! i = resolvedPosition d (calibrationRef s) frame i)"
proof (induction todo arbitrary: s)
  case Nil
  then show ?case by simp
next
  case (Cons k rest)
  let ?pos = "resolvedPosition d (calibrationRef s) frame k"
  let ?s1 = "s\<lparr>jointPositionsRef := (jointPositionsRef s)[k := ?pos]\<rparr>"
  let ?s2 = "?s1\<lparr>jointsRef := (jointsRef ?s1)[k := ?pos]\<rparr>"
  from Cons.prems(2) have kr: "k \<notin> set rest" and dr: "distinct rest"
    by auto
  from Cons.prems(1) have kp: "k < length (jointPositionsRef s)"
    by (auto simp: Let_def split: if_splits)
  from Cons.prems(1) consider
      (go2) "sel \<noteq> Some k \<or> \<not> isDraggingRef s" "k < length (jointsRef s)"
            "updateJoints d frame sel rest ?s2 = (s', None)"
    | (go1) "\<not> (sel \<noteq> Some k \<or> \<not> isDraggingRef s)"
            "updateJoints d frame sel rest ?s1 = (s', None)"
    by (auto simp: Let_def split: if_splits)
  then show ?case
  proof cases
    case go2
    show ?thesis
    proof (cases "i = k")
      case True
      from updateJoints_others [OF go2(3) kr] show ?thesis
        using True kp go2(2) by simp
    next
      case False
      with Cons.prems(3) have "i \<in> set rest" by simp
      from Cons.IH [OF go2(3) dr this] show ?thesis by simp
    qed
  next
    case go1
    show ?thesis
    proof (cases "i = k")
      case True
      from updateJoints_others [OF go1(2) kr] show ?thesis
        using True kp go1(1) by simp
    next
      case False
      with Cons.prems(3) have "i \<in> set rest" by simp
      from Cons.IH [OF go1(2) dr this] show ?thesis by simp
    qed
  qed
qed

lemma updateJoints_ok:
  "(\<forall>i \<in> set todo. i < length (jointPositionsRef s) \<and> i < length (jointsRef s) \<and>
       i < length frame \<and> 3 \<le> length (frame ! i)) \<Longrightarrow>
   snd (updateJoints d frame sel todo s) = None"
proof (induction todo arbitrary: s)
  case Nil
  then show ?case by simp
next
  case (Cons k rest)
  let ?pos = "resolvedPosition d (calibrationRef s) frame k"
  let ?s1 = "s\<lparr>jointPositionsRef := (jointPositionsRef s)[k := ?pos]\<rparr>"
  let ?s2 = "?s1\<lparr>jointsRef := (jointsRef ?s1)[k := ?pos]\<rparr>"
  have r1: "snd (updateJoints d frame sel rest ?s1) = None"
    by (rule Cons.IH) (use Cons.prems in simp)
  have r2: "snd (updateJoints d frame sel rest ?s2) = None"
    by (rule Cons.IH) (use Cons.prems in simp)
  show ?case
    using Cons.prems r1 r2 by (auto simp: Let_def)
qed

lemma updateBones_frame:
  "updateBones es k s = (s', e) \<Longrightarrow>
     sceneRef s' = sceneRef s \<and> cameraRef s' = cameraRef s \<and> controlsRef s' = controlsRef s \<and>
     jointsRef s' = jointsRef s \<and> jointPositionsRef s' = jointPositionsRef s \<and>
     calibrationRef s' = calibrationRef s \<and> selectedJointRef s' = selectedJointRef s \<and>
     isDraggingRef s' = isDraggingRef s \<and> length (bonesRef s') = length (bonesRef s)"
proof (induction es arbitrary: k s)
  case Nil
  then show ?case by simp
next
  case (Cons ab rest)
  obtain a b where ab: "ab = (a, b)" by (cases ab)
  let ?s1 = "s\<lparr>bonesRef := (bonesRef s)[k := (jointPositionsRef s ! a, snd (bonesRef s ! k))]\<rparr>"
  let ?s2 = "s\<lparr>bonesRef := (bonesRef s)[k := (jointPositionsRef s ! a, jointPositionsRef s ! b)]\<rparr>"
  from Cons.prems consider
      (stop) "s' = s"
    | (stop1) "s' = ?s1"
    | (go) "updateBones rest (k + 1) ?s2 = (s', e)"
    unfolding ab by (auto simp: Let_def split: if_splits)
  then show ?case
  proof cases
    case stop
    then show ?thesis by simp
  next
    case stop1
    then show ?thesis by simp
  next
    case go
    from Cons.IH [OF go] show ?thesis by simp
  qed
qed

lemma updateBones_ok:
  "list_all (\<lambda>(a, b). a < length (jointPositionsRef s) \<and> b < length (jointPositionsRef s)) es \<Longrightarrow>
   k + length es \<le> length (bonesRef s) \<Longrightarrow>
   snd (updateBones es k s) = None"
proof (induction es arbitrary: k s)
  case Nil
  then show ?case by simp
next
  case (Cons ab rest)
  obtain a b where ab: "ab = (a, b)" by (cases ab)
  let ?s2 = "s\<lparr>bonesRef := (bonesRef s)[k := (jointPositionsRef s ! a, jointPositionsRef s ! b)]\<rparr>"
  have "snd (updateBones rest (k + 1) ?s2) = None"
    by (rule Cons.IH) (use Cons.prems in \<open>simp_all add: ab\<close>)
  then show ?case
    using Cons.prems by (simp add: ab Let_def)
qed



lemma updateSkeleton_normal:
  assumes "cameraRef s = Some cam" and "jointsRef s \<noteq> []" and "bonesRef s \<noteq> []"
    and "frameAt d frameIndex = Some frame"
    and "updateJoints d frame (selectedIdx d s) [0..<numSensors d] s = (s1, None)"
    and "updateBones (edgeIndexPairs (Some d)) 0 s1 = (s2, None)"
  shows "updateSkeleton (Some d) frameIndex s =
     (if frameIndex = Frame 0 \<and> controlsRef s2 \<noteq> None
      then (case sceneRef s2 of
              None \<Rightarrow> (s2, Some TypeError)
            | Some hasAutoCentered \<Rightarrow>
                if hasAutoCentered then (s2, None) else (autoCenter cam s2, None))
      else (s2, None))"
  using assms by (simp add: updateSkeleton_def)

text \<open>
  When \<^verbatim>\<open>updateSkeleton\<close> runs through, every joint in range has its resolved
  position, and its marker has it too unless the joint is the selected one under drag.
\<close>

lemma updateSkeleton_resolves:
  assumes run: "updateSkeleton (Some d) frameIndex s = (s', None)"
    and cam: "cameraRef s \<noteq> None" and joints: "jointsRef s \<noteq> []" and bones: "bonesRef s \<noteq> []"
    and frame: "frameAt d frameIndex = Some frame"
    and i: "i < numSensors d"
  shows "jointPositionsRef s' ! i = resolvedPosition d (calibrationRef s) frame i \<and>
         (selectedIdx d s \<noteq> Some i \<or> \<not> isDraggingRef s \<longrightarrow>
            jointsRef s' ! i = resolvedPosition d (calibrationRef s) frame i)"
proof -
  from cam obtain c where c: "cameraRef s = Some c" by blast
  obtain s1 e1 where j: "updateJoints d frame (selectedIdx d s) [0..<numSensors d] s = (s1, e1)"
    by (cases "updateJoints d frame (selectedIdx d s) [0..<numSensors d] s")
  obtain s2 e2 where b: "updateBones (edgeIndexPairs (Some d)) 0 s1 = (s2, e2)"
    by (cases "updateBones (edgeIndexPairs (Some d)) 0 s1")
  have e1: "e1 = None"
    using run c joints bones frame j
    by (cases e1) (simp_all add: updateSkeleton_def)
  have e2: "e2 = None"
    using run c joints bones frame j b e1
    by (cases e2) (simp_all add: updateSkeleton_def)
  have "s' = s2 \<or> s' = autoCenter c s2"
    using run updateSkeleton_normal [OF c joints bones frame j [unfolded e1] b [unfolded e2]]
    by (auto split: if_splits option.splits)
  then have same: "jointPositionsRef s' = jointPositionsRef s2" "jointsRef s' = jointsRef s2"
    by (auto simp: autoCenter_def)
  have s2: "jointPositionsRef s2 = jointPositionsRef s1" "jointsRef s2 = jointsRef s1"
    using updateBones_frame [OF b] by simp_all
  have "i \<in> set [0..<numSensors d]"
    using i by simp
  from updateJoints_positions [OF j [unfolded e1] _ this]
  show ?thesis
    using same s2 by simp
qed

lemma indexOf_Some: "indexOf xs a = Some i \<Longrightarrow> i < length xs \<and> xs ! i = a"
  by (induction xs arbitrary: i) (auto split: if_splits)

lemma base_position:
  assumes "frameAt d frameIndex = Some frame" and "i < length frame" and "3 \<le> length (frame ! i)"
  shows "getBasePositionForJoint (Some d) i frameIndex =
           Vector3 ((frame ! i) ! 0 * SCALE_FACTOR) ((frame ! i) ! 1 * SCALE_FACTOR)
                   ((frame ! i) ! 2 * SCALE_FACTOR)"
proof -
  from assms(3) have "0 < length (frame ! i)" "1 < length (frame ! i)" "2 < length (frame ! i)"
    by linarith+
  then show ?thesis
    using assms(1,2) by (simp add: getBasePositionForJoint_def coordOrZero_def del: length_greater_0_conv)
qed

lemma shift_after_change:
  assumes "i < length (sensorNames d)" and "sensorNames d ! i = joint" and "joint \<noteq> []"
  shows "calibrationShift d (onCalibrationChange cal joint [a, b, c]) i =
           Vector3 (a * SCALE_FACTOR) (b * SCALE_FACTOR) (c * SCALE_FACTOR)"
  using assms by (simp add: calibrationShift_def onCalibrationChange_self coordOrZero_def)

lemma edgeIndexPairs_in_range:
  "list_all (\<lambda>(a, b). a < length (sensorNames d) \<and> b < length (sensorNames d))
     (edgeIndexPairs (Some d))"
  unfolding list_all_iff edgeIndexPairs_def option.case
  using index_pairs_in_range by fastforce

text \<open>
  \<^verbatim>\<open>updateSkeleton\<close> raises nothing when the scene was built for the dataset
  (a marker and a vector per sensor, a line per edge index pair) and the frame holds a
  complete point for every sensor.
\<close>

lemma updateSkeleton_ok:
  assumes scene: "sceneRef s \<noteq> None"
    and frame: "frameAt d frameIndex = Some frame"
    and lens: "length (jointPositionsRef s) = numSensors d" "length (jointsRef s) = numSensors d"
      "length (bonesRef s) = length (edgeIndexPairs (Some d))"
    and n: "numSensors d = length (sensorNames d)"
    and points: "numSensors d \<le> length frame" "\<forall>k < numSensors d. 3 \<le> length (frame ! k)"
  shows "snd (updateSkeleton (Some d) frameIndex s) = None"
proof (cases "cameraRef s")
  case None
  then show ?thesis by (simp add: updateSkeleton_def)
next
  case (Some cam)
  show ?thesis
  proof (cases "jointsRef s = [] \<or> bonesRef s = []")
    case True
    then show ?thesis using Some by (auto simp: updateSkeleton_def)
  next
    case False
    then have j0: "jointsRef s \<noteq> []" and b0: "bonesRef s \<noteq> []"
      by simp_all
    obtain s1 e1 where j: "updateJoints d frame (selectedIdx d s) [0..<numSensors d] s = (s1, e1)"
      by (cases "updateJoints d frame (selectedIdx d s) [0..<numSensors d] s")
    have "snd (updateJoints d frame (selectedIdx d s) [0..<numSensors d] s) = None"
      by (rule updateJoints_ok) (use lens points in auto)
    with j have e1: "e1 = None"
      by simp
    note fr1 = updateJoints_frame [OF j]
    obtain s2 e2 where b: "updateBones (edgeIndexPairs (Some d)) 0 s1 = (s2, e2)"
      by (cases "updateBones (edgeIndexPairs (Some d)) 0 s1")
    have len1: "length (jointPositionsRef s1) = length (sensorNames d)"
      using fr1 lens n by simp
    have "snd (updateBones (edgeIndexPairs (Some d)) 0 s1) = None"
    proof (rule updateBones_ok)
      show "list_all (\<lambda>(a, b). a < length (jointPositionsRef s1) \<and> b < length (jointPositionsRef s1))
          (edgeIndexPairs (Some d))"
        unfolding len1 by (rule edgeIndexPairs_in_range)
      show "0 + length (edgeIndexPairs (Some d)) \<le> length (bonesRef s1)"
        using fr1 lens by simp
    qed
    with b have e2: "e2 = None"
      by simp
    have "sceneRef s2 \<noteq> None"
      using updateBones_frame [OF b] fr1 scene by simp
    then show ?thesis
      using updateSkeleton_normal [OF Some j0 b0 frame j [unfolded e1] b [unfolded e2]]
      by (auto split: option.splits)
  qed
qed

text \<open>
  The round trip of a drag while the dataset of the first render is still the one shown.
  Let the listener report an offset for the selected joint, joint \<open>i\<close> of that dataset,
  at a frame that has a complete point for it.  The base position is the uncalibrated
  point of the frame in render units, the reported offset is the marker's position minus
  the base position, divided by the scale factor, coordinate by coordinate, and the pose
  resolved with that offset committed to the calibration is the marker's position again
  (the numbers are reals here).  The same holds through \<^verbatim>\<open>updateSkeleton\<close>:
  when the scene was built for the dataset, the call at that frame after the drag has
  ended raises nothing and puts the resolved position and the marker of the joint where
  the manipulator left it.
\<close>

lemma drag_round_trip_mounted:
  assumes report: "handleTransformChange (Some d) frameIndex s = Some (joint, offset)"
    and idx: "indexOf (sensorNames d) joint = Some i"
    and frame: "frameAt d frameIndex = Some frame"
    and point: "i < length frame" "3 \<le> length (frame ! i)"
  shows "getBasePositionForJoint (Some d) i frameIndex =
           Vector3 ((frame ! i) ! 0 * SCALE_FACTOR) ((frame ! i) ! 1 * SCALE_FACTOR)
                   ((frame ! i) ! 2 * SCALE_FACTOR) \<and>
         offset =
           [(vx (jointsRef s ! i) - vx (getBasePositionForJoint (Some d) i frameIndex)) / SCALE_FACTOR,
            (vy (jointsRef s ! i) - vy (getBasePositionForJoint (Some d) i frameIndex)) / SCALE_FACTOR,
            (vz (jointsRef s ! i) - vz (getBasePositionForJoint (Some d) i frameIndex)) / SCALE_FACTOR] \<and>
         resolvedPosition d (onCalibrationChange (calibrationRef s) joint offset) frame i =
           jointsRef s ! i \<and>
         (sceneRef s \<noteq> None \<and> cameraRef s \<noteq> None \<and> bonesRef s \<noteq> [] \<and>
          length (jointPositionsRef s) = numSensors d \<and> length (jointsRef s) = numSensors d \<and>
          length (bonesRef s) = length (edgeIndexPairs (Some d)) \<and>
          numSensors d = length (sensorNames d) \<and>
          numSensors d \<le> length frame \<and> (\<forall>k < numSensors d. 3 \<le> length (frame ! k))
          \<longrightarrow>
          snd (updateSkeleton (Some d) frameIndex
            (s\<lparr>calibrationRef := onCalibrationChange (calibrationRef s) joint offset,
               isDraggingRef := False\<rparr>)) = None \<and>
          jointsRef (fst (updateSkeleton (Some d) frameIndex
            (s\<lparr>calibrationRef := onCalibrationChange (calibrationRef s) joint offset,
               isDraggingRef := False\<rparr>))) ! i = jointsRef s ! i \<and>
          jointPositionsRef (fst (updateSkeleton (Some d) frameIndex
            (s\<lparr>calibrationRef := onCalibrationChange (calibrationRef s) joint offset,
               isDraggingRef := False\<rparr>))) ! i = jointsRef s ! i)"
proof -
  let ?m = "jointsRef s ! i"
  let ?base = "getBasePositionForJoint (Some d) i frameIndex"
  let ?off = "[(vx ?m - vx ?base) / SCALE_FACTOR, (vy ?m - vy ?base) / SCALE_FACTOR,
               (vz ?m - vz ?base) / SCALE_FACTOR]"
  let ?r = "s\<lparr>calibrationRef := onCalibrationChange (calibrationRef s) joint ?off,
               isDraggingRef := False\<rparr>"
  from report idx have sel: "selectedJointRef s = Some joint" and ne: "joint \<noteq> []"
    and marker: "i < length (jointsRef s)" and off: "offset = ?off"
    by (auto simp: handleTransformChange_def Let_def split: option.splits if_splits)
  from indexOf_Some [OF idx] have i: "i < length (sensorNames d)" "sensorNames d ! i = joint"
    by simp_all
  have base: "?base = Vector3 ((frame ! i) ! 0 * SCALE_FACTOR) ((frame ! i) ! 1 * SCALE_FACTOR)
                   ((frame ! i) ! 2 * SCALE_FACTOR)"
    by (rule base_position [OF frame point])
  have shift: "calibrationShift d (onCalibrationChange (calibrationRef s) joint ?off) i =
      Vector3 ((vx ?m - vx ?base) / SCALE_FACTOR * SCALE_FACTOR)
              ((vy ?m - vy ?base) / SCALE_FACTOR * SCALE_FACTOR)
              ((vz ?m - vz ?base) / SCALE_FACTOR * SCALE_FACTOR)"
    by (rule shift_after_change [OF i ne])
  have nz: "SCALE_FACTOR \<noteq> 0"
    by (simp add: SCALE_FACTOR_def)
  have res: "resolvedPosition d (onCalibrationChange (calibrationRef s) joint ?off) frame i = ?m"
    unfolding resolvedPosition_def shift
    using nz by (cases ?m) (simp add: base)
  have upd: "snd (updateSkeleton (Some d) frameIndex ?r) = None \<and>
      jointsRef (fst (updateSkeleton (Some d) frameIndex ?r)) ! i = ?m \<and>
      jointPositionsRef (fst (updateSkeleton (Some d) frameIndex ?r)) ! i = ?m"
    if sc: "sceneRef s \<noteq> None" and c: "cameraRef s \<noteq> None" and b: "bonesRef s \<noteq> []"
      and l1: "length (jointPositionsRef s) = numSensors d"
      and l2: "length (jointsRef s) = numSensors d"
      and l3: "length (bonesRef s) = length (edgeIndexPairs (Some d))"
      and n: "numSensors d = length (sensorNames d)"
      and p1: "numSensors d \<le> length frame" and p2: "\<forall>k < numSensors d. 3 \<le> length (frame ! k)"
  proof -
    have ok: "snd (updateSkeleton (Some d) frameIndex ?r) = None"
      by (rule updateSkeleton_ok [OF _ frame _ _ _ n p1 p2]) (use sc l1 l2 l3 in simp_all)
    then have run: "updateSkeleton (Some d) frameIndex ?r =
        (fst (updateSkeleton (Some d) frameIndex ?r), None)"
      by (metis prod.collapse)
    have j: "jointsRef ?r \<noteq> []"
      using marker by auto
    have ni: "i < numSensors d"
      using i n by simp
    from updateSkeleton_resolves [OF run _ j _ frame ni] c b
    show ?thesis
      using res ok by simp
  qed
  show ?thesis
    unfolding off using base res upd by blast
qed

lemmas scene_eval =
  updateSkeleton_def createSkeleton_def frameAt_def selectedIdx_def calibrationShift_def
  resolvedPosition_def handleTransformChange_def getBasePositionForJoint_def
  onCalibrationChange_def coordOrZero_def SCALE_FACTOR_def Let_def

lemma edgeIndexPairs_two:
  "sensorNames d = [''sternum'', ''lumbar''] \<Longrightarrow> edgeIndexPairs (Some d) = [(0, 1)]"
  by (simp add: edgeIndexPairs_def nameToIdx_def EDGES_def List.map_filter_simps)

text \<open>
  The scenario of the specification: with the first dataset shown, dragging
  \<^verbatim>\<open>lumbar\<close> by 0.05 along x reports the offset \<open>(5, 0, 0)\<close>.
\<close>

lemma drag_lumbar_scenario:
  "handleTransformChange
     (Some \<lparr>frameRate = 30, sensorNames = [''sternum'', ''lumbar''],
       edges = [(''sternum'', ''lumbar'')], numFrames = 1, numSensors = 2,
       frames = [[[0, 0, 150], [0, 0, 100]]]\<rparr>)
     (Frame 0)
     \<lparr>sceneRef = Some True, cameraRef = Some \<lparr>position = Vector3 3 2 3, fov = 60\<rparr>,
       controlsRef = Some (Vector3 0 1 0),
       jointsRef = [Vector3 0 0 (3 / 2), Vector3 (1 / 20) 0 1],
       bonesRef = [(Vector3 0 0 (3 / 2), Vector3 0 0 1)],
       jointPositionsRef = [Vector3 0 0 (3 / 2), Vector3 0 0 1],
       calibrationRef = Map.empty, selectedJointRef = Some ''lumbar'', isDraggingRef = True\<rparr>
     = Some (''lumbar'', [5, 0, 0])"
  by (simp add: scene_eval)

text \<open>
  C2, at a failing input.  The viewer is mounted with a dataset whose frame 0 has
  \<^verbatim>\<open>lumbar\<close> at \<open>(0, 0, 100)\<close>; the page then switches to a dataset with the
  same sensors whose frame 0 has it at \<open>(0, 0, 200)\<close>, so its marker is drawn at
  \<open>(0, 0, 2)\<close>.  The user drags the marker to \<open>(0.05, 0, 2)\<close>.  The listener still
  takes the base position from the first dataset and reports the offset
  \<open>(5, 0, 100)\<close> instead of \<open>(5, 0, 0)\<close>; after the release,
  \<^verbatim>\<open>updateSkeleton\<close> resolves the dataset shown with that offset and puts the
  marker at \<open>(0.05, 0, 3)\<close>, not where the manipulator left it.
\<close>

theorem stale_dataset_drag:
  "handleTransformChange
     (Some \<lparr>frameRate = 30, sensorNames = [''sternum'', ''lumbar''],
       edges = [(''sternum'', ''lumbar'')], numFrames = 1, numSensors = 2,
       frames = [[[0, 0, 150], [0, 0, 100]]]\<rparr>)
     (Frame 0)
     \<lparr>sceneRef = Some True, cameraRef = Some \<lparr>position = Vector3 3 2 3, fov = 60\<rparr>,
       controlsRef = Some (Vector3 0 1 0),
       jointsRef = [Vector3 0 0 (5 / 2), Vector3 (1 / 20) 0 2],
       bonesRef = [(Vector3 0 0 (5 / 2), Vector3 0 0 2)],
       jointPositionsRef = [Vector3 0 0 (5 / 2), Vector3 0 0 2],
       calibrationRef = Map.empty, selectedJointRef = Some ''lumbar'', isDraggingRef = True\<rparr>
     = Some (''lumbar'', [5, 0, 100]) \<and>
   updateSkeleton
     (Some \<lparr>frameRate = 30, sensorNames = [''sternum'', ''lumbar''],
       edges = [(''sternum'', ''lumbar'')], numFrames = 1, numSensors = 2,
       frames = [[[0, 0, 250], [0, 0, 200]]]\<rparr>)
     (Frame 0)
     \<lparr>sceneRef = Some True, cameraRef = Some \<lparr>position = Vector3 3 2 3, fov = 60\<rparr>,
       controlsRef = Some (Vector3 0 1 0),
       jointsRef = [Vector3 0 0 (5 / 2), Vector3 (1 / 20) 0 2],
       bonesRef = [(Vector3 0 0 (5 / 2), Vector3 0 0 2)],
       jointPositionsRef = [Vector3 0 0 (5 / 2), Vector3 0 0 2],
       calibrationRef = onCalibrationChange Map.empty ''lumbar'' [5, 0, 100],
       selectedJointRef = Some ''lumbar'', isDraggingRef = False\<rparr>
     = (\<lparr>sceneRef = Some True, cameraRef = Some \<lparr>position = Vector3 3 2 3, fov = 60\<rparr>,
         controlsRef = Some (Vector3 0 1 0),
         jointsRef = [Vector3 0 0 (5 / 2), Vector3 (1 / 20) 0 3],
         bonesRef = [(Vector3 0 0 (5 / 2), Vector3 (1 / 20) 0 3)],
         jointPositionsRef = [Vector3 0 0 (5 / 2), Vector3 (1 / 20) 0 3],
         calibrationRef = onCalibrationChange Map.empty ''lumbar'' [5, 0, 100],
         selectedJointRef = Some ''lumbar'', isDraggingRef = False\<rparr>, None)"
proof -
  have e: "edgeIndexPairs
     (Some \<lparr>frameRate = 30, sensorNames = [''sternum'', ''lumbar''],
       edges = [(''sternum'', ''lumbar'')], numFrames = 1, numSensors = 2,
       frames = [[[0, 0, 250], [0, 0, 200]]]\<rparr>) = [(0, 1)]"
    by (rule edgeIndexPairs_two) simp
  show ?thesis
    by (simp add: scene_eval e upt_rec)
qed

theorem stale_dataset_drag_witness:
  "jointsRef (fst (updateSkeleton
     (Some \<lparr>frameRate = 30, sensorNames = [''sternum'', ''lumbar''],
       edges = [(''sternum'', ''lumbar'')], numFrames = 1, numSensors = 2,
       frames = [[[0, 0, 250], [0, 0, 200]]]\<rparr>)
     (Frame 0)
     \<lparr>sceneRef = Some True, cameraRef = Some \<lparr>position = Vector3 3 2 3, fov = 60\<rparr>,
       controlsRef = Some (Vector3 0 1 0),
       jointsRef = [Vector3 0 0 (5 / 2), Vector3 (1 / 20) 0 2],
       bonesRef = [(Vector3 0 0 (5 / 2), Vector3 0 0 2)],
       jointPositionsRef = [Vector3 0 0 (5 / 2), Vector3 0 0 2],
       calibrationRef = onCalibrationChange Map.empty ''lumbar'' [5, 0, 100],
       selectedJointRef = Some ''lumbar'', isDraggingRef = False\<rparr>)) ! 1
     \<noteq> Vector3 (1 / 20) 0 2"
  using stale_dataset_drag by simp





end
